theory Spec2Isabelle
  imports Main "HOL-Library.AList"
begin

section \<open>Python strings\<close>

text \<open>
  A Python \<open>str\<close> is a sequence of Unicode code points; it is modelled as the list of
  these code points.  A \<open>str\<close> can hold lone surrogates (U+D800 to U+DFFF), which have no
  UTF-8 encoding: \<open>utf8_encode\<close> raises on them, as \<open>str.encode\<close> does.  An ASCII literal
  of the source is written \<open>lit ''...''\<close>.
\<close>

type_synonym codepoint = nat
type_synonym str = "codepoint list"

definition lit :: "string \<Rightarrow> str" where
  "lit cs = map of_char cs"

text \<open>\<open>str.isspace\<close> on one code point (CPython's \<open>_PyUnicode_IsWhitespace\<close>).\<close>

definition isspace :: "codepoint \<Rightarrow> bool" where
  "isspace c \<longleftrightarrow>
     (9 \<le> c \<and> c \<le> 13) \<or> (28 \<le> c \<and> c \<le> 32) \<or> c = 133 \<or> c = 160 \<or> c = 5760 \<or>
     (8192 \<le> c \<and> c \<le> 8202) \<or> c = 8232 \<or> c = 8233 \<or> c = 8239 \<or> c = 8287 \<or> c = 12288"

definition lstrip :: "str \<Rightarrow> str" where
  "lstrip s = dropWhile isspace s"

definition rstrip :: "str \<Rightarrow> str" where
  "rstrip s = rev (dropWhile isspace (rev s))"

text \<open>\<open>s.strip()\<close> with no argument.\<close>

definition strip :: "str \<Rightarrow> str" where
  "strip s = rstrip (lstrip s)"

text \<open>\<open>s.startswith(p)\<close>.\<close>

definition startswith :: "str \<Rightarrow> str \<Rightarrow> bool" where
  "startswith s p \<longleftrightarrow> take (length p) s = p"

text \<open>\<open>s.partition(c)[0]\<close> and \<open>s.partition(c)[2]\<close> for a one-character separator: the
  text before the first \<open>c\<close> (all of \<open>s\<close> when there is none) and the text after it.\<close>

definition before :: "codepoint \<Rightarrow> str \<Rightarrow> str" where
  "before c s = takeWhile (\<lambda>x. x \<noteq> c) s"

definition after :: "codepoint \<Rightarrow> str \<Rightarrow> str" where
  "after c s = drop 1 (dropWhile (\<lambda>x. x \<noteq> c) s)"

text \<open>\<open>s.split(c)\<close> for a one-character separator; the result is never empty.\<close>

fun split_on :: "codepoint \<Rightarrow> str \<Rightarrow> str list" where
  "split_on c [] = [[]]"
| "split_on c (x # xs) =
     (if x = c then [] # split_on c xs
      else (case split_on c xs of [] \<Rightarrow> [[x]] | seg # segs \<Rightarrow> (x # seg) # segs))"

text \<open>\<open>c.join(parts)\<close>.\<close>

fun join :: "codepoint \<Rightarrow> str list \<Rightarrow> str" where
  "join c [] = []"
| "join c [p] = p"
| "join c (p # ps) = p @ c # join c ps"

definition is_ascii_alpha :: "codepoint \<Rightarrow> bool" where
  "is_ascii_alpha c \<longleftrightarrow> (65 \<le> c \<and> c \<le> 90) \<or> (97 \<le> c \<and> c \<le> 122)"

definition is_ascii_digit :: "codepoint \<Rightarrow> bool" where
  "is_ascii_digit c \<longleftrightarrow> 48 \<le> c \<and> c \<le> 57"

definition ascii_lower :: "codepoint \<Rightarrow> codepoint" where
  "ascii_lower c = (if 65 \<le> c \<and> c \<le> 90 then c + 32 else c)"

section \<open>Exceptions, JSON values and HTTP\<close>

text \<open>The exceptions that the modelled code can meet.  \<open>JSONDecodeError\<close> and
  \<open>UnicodeEncodeError\<close> are subclasses of \<open>ValueError\<close> in Python, so a handler for
  \<open>ValueError\<close> catches all three; \<open>OtherException\<close> stands for any other subclass of
  \<open>Exception\<close> (transport errors of the HTTP client, \<open>AttributeError\<close>,
  \<open>TypeError\<close>, ...).\<close>

datatype exn =
  RuntimeError | ValueError | JSONDecodeError | UnicodeEncodeError | OtherException

text \<open>\<open>s.encode("utf-8")\<close>, as a list of byte values.  Only a Unicode scalar value has
  an encoding; a lone surrogate raises \<open>UnicodeEncodeError\<close> (a number from 1114112 on
  is not a code point and does not occur in a \<open>str\<close>; it is rejected as well).\<close>

definition scalar_value :: "codepoint \<Rightarrow> bool" where
  "scalar_value c \<longleftrightarrow> c < 55296 \<or> (57344 \<le> c \<and> c < 1114112)"

definition utf8_char :: "codepoint \<Rightarrow> nat list" where
  "utf8_char c =
     (if c < 128 then [c]
      else if c < 2048 then [192 + c div 64, 128 + c mod 64]
      else if c < 65536 then [224 + c div 4096, 128 + (c div 64) mod 64, 128 + c mod 64]
      else [240 + c div 262144, 128 + (c div 4096) mod 64, 128 + (c div 64) mod 64,
            128 + c mod 64])"

definition utf8_encode :: "str \<Rightarrow> exn + nat list" where
  "utf8_encode s =
     (if list_all scalar_value s then Inr (concat (map utf8_char s))
      else Inl UnicodeEncodeError)"

text \<open>A value produced by \<open>json.loads\<close>.  A float is left abstract: the program only
  observes its truth value and its \<open>str()\<close>.  A dict is the list of its items in
  insertion order.\<close>

typedecl pyfloat

datatype json =
    JNull
  | JBool bool
  | JInt int
  | JFloat pyfloat
  | JStr str
  | JList "json list"
  | JDict "(str \<times> json) list"

datatype http_method = HEAD | GET | GET_STREAM

record request =
  rq_method :: http_method
  rq_follow_redirects :: bool
  rq_url :: str
  rq_params :: "(str \<times> str) list"
  rq_timeout :: nat

record response =
  status_code :: int
  location :: "str option"   \<comment> \<open>\<open>resp.headers.get("location")\<close>, \<open>None\<close> when absent\<close>
  resp_text :: str           \<comment> \<open>\<open>resp.text\<close>\<close>
  json_body :: "exn + json"  \<comment> \<open>what \<open>resp.json()\<close> returns or raises\<close>
  final_url :: str           \<comment> \<open>\<open>str(resp.url)\<close>\<close>

text \<open>
  What the program takes from its surroundings: the three module constants read from the
  process environment when the module is loaded, the library functions whose result is
  not recomputed here, and the network.  The network answers a request depending on all
  the requests sent so far (the last element of the list is the request being answered);
  \<open>Inl\<close> is an exception raised by the HTTP client.
\<close>

record env =
  MUSIC_API_BASE_URL :: str
  MUSIC_API_TOKEN :: str
  MUSIC_SIGN_PARAM :: str
  hmac_sha1_hexdigest :: "nat list \<Rightarrow> nat list \<Rightarrow> str"
    \<comment> \<open>\<open>hmac.new(key, msg, hashlib.sha1).hexdigest()\<close>\<close>
  is_ipv6_address :: "str \<Rightarrow> bool"
    \<comment> \<open>\<open>ipaddress.ip_address(h)\<close> returns an \<open>IPv6Address\<close>\<close>
  nfkc :: "str \<Rightarrow> str"
    \<comment> \<open>\<open>unicodedata.normalize('NFKC', s)\<close>\<close>
  json_loads :: "str \<Rightarrow> exn + json"
    \<comment> \<open>\<open>json.loads(s)\<close>\<close>
  float_nonzero :: "pyfloat \<Rightarrow> bool"
    \<comment> \<open>\<open>bool(f)\<close>\<close>
  py_repr :: "json \<Rightarrow> str"
    \<comment> \<open>\<open>str(v)\<close> for a number, a list or a dict\<close>
  network :: "request list \<Rightarrow> exn + response"

text \<open>Python truth value of a JSON value.\<close>

fun truthy :: "env \<Rightarrow> json \<Rightarrow> bool" where
  "truthy e JNull = False"
| "truthy e (JBool b) = b"
| "truthy e (JInt i) = (i \<noteq> 0)"
| "truthy e (JFloat f) = float_nonzero e f"
| "truthy e (JStr s) = (s \<noteq> [])"
| "truthy e (JList xs) = (xs \<noteq> [])"
| "truthy e (JDict d) = (d \<noteq> [])"

text \<open>\<open>str(v)\<close>.\<close>

fun py_str :: "env \<Rightarrow> json \<Rightarrow> str" where
  "py_str e (JStr s) = s"
| "py_str e JNull = lit ''None''"
| "py_str e (JBool b) = (if b then lit ''True'' else lit ''False'')"
| "py_str e v = py_repr e v"

text \<open>\<open>d.get(k, default)\<close>; \<open>d.get(k)\<close> is \<open>dict_get d k JNull\<close>.\<close>

definition dict_get :: "(str \<times> json) list \<Rightarrow> str \<Rightarrow> json \<Rightarrow> json" where
  "dict_get d k dflt = (case map_of d k of None \<Rightarrow> dflt | Some v \<Rightarrow> v)"

section \<open>\<open>urllib.parse\<close> (CPython 3.11)\<close>

definition scheme_char :: "codepoint \<Rightarrow> bool" where
  "scheme_char c \<longleftrightarrow> is_ascii_alpha c \<or> is_ascii_digit c \<or> c = 43 \<or> c = 45 \<or> c = 46"

definition uses_relative :: "str list" where
  "uses_relative = map lit ['''', ''ftp'', ''http'', ''gopher'', ''nntp'', ''imap'',
     ''wais'', ''file'', ''https'', ''shttp'', ''mms'', ''prospero'', ''rtsp'', ''rtsps'',
     ''rtspu'', ''sftp'', ''svn'', ''svn+ssh'', ''ws'', ''wss'']"

definition uses_netloc :: "str list" where
  "uses_netloc = map lit ['''', ''ftp'', ''http'', ''gopher'', ''nntp'', ''telnet'',
     ''imap'', ''wais'', ''file'', ''mms'', ''https'', ''shttp'', ''snews'', ''prospero'',
     ''rtsp'', ''rtsps'', ''rtspu'', ''rsync'', ''svn'', ''svn+ssh'', ''sftp'', ''nfs'',
     ''git'', ''git+ssh'', ''ws'', ''wss'']"

definition uses_params :: "str list" where
  "uses_params = map lit ['''', ''ftp'', ''hdl'', ''prospero'', ''http'', ''imap'',
     ''https'', ''shttp'', ''rtsp'', ''rtsps'', ''rtspu'', ''sip'', ''sips'', ''mms'',
     ''sftp'', ''tel'']"

text \<open>\<open>url.lstrip(_WHATWG_C0_CONTROL_OR_SPACE)\<close> followed by the removal of tab, carriage
  return and newline.\<close>

definition clean_url :: "str \<Rightarrow> str" where
  "clean_url url =
     filter (\<lambda>c. c \<noteq> 9 \<and> c \<noteq> 13 \<and> c \<noteq> 10) (dropWhile (\<lambda>c. c \<le> 32) url)"

text \<open>The scheme step of \<open>urlsplit\<close> on the cleaned URL: the scheme found (or the default
  handed in) and the rest.\<close>

definition split_scheme :: "str \<Rightarrow> str \<Rightarrow> str \<times> str" where
  "split_scheme url scheme =
     (let pre = before 58 url in
      if 58 \<in> set url \<and> pre \<noteq> [] \<and> is_ascii_alpha (hd url) \<and> list_all scheme_char pre
      then (map ascii_lower pre, after 58 url)
      else (scheme, url))"

text \<open>\<open>_splitnetloc(url, 2)\<close>.\<close>

definition netloc_delim :: "codepoint \<Rightarrow> bool" where
  "netloc_delim c \<longleftrightarrow> c = 47 \<or> c = 63 \<or> c = 35"

definition splitnetloc :: "str \<Rightarrow> str \<times> str" where
  "splitnetloc url =
     (takeWhile (\<lambda>c. \<not> netloc_delim c) (drop 2 url),
      dropWhile (\<lambda>c. \<not> netloc_delim c) (drop 2 url))"

text \<open>\<open>_check_bracketed_host\<close>: \<open>True\<close> when it returns, \<open>False\<close> when it raises
  \<open>ValueError\<close>.  The regular expression is \<open>\Av[a-fA-F0-9]+\..+\Z\<close>.\<close>

definition is_hex_digit :: "codepoint \<Rightarrow> bool" where
  "is_hex_digit c \<longleftrightarrow> is_ascii_digit c \<or> (65 \<le> c \<and> c \<le> 70) \<or> (97 \<le> c \<and> c \<le> 102)"

definition check_bracketed_host :: "env \<Rightarrow> str \<Rightarrow> bool" where
  "check_bracketed_host e hostname =
     (if startswith hostname (lit ''v'') then
        (let hex = takeWhile is_hex_digit (drop 1 hostname);
             rest = dropWhile is_hex_digit (drop 1 hostname)
         in hex \<noteq> [] \<and> startswith rest (lit ''.'') \<and> drop 1 rest \<noteq> [] \<and>
            10 \<notin> set (drop 1 rest))
      else is_ipv6_address e hostname)"

text \<open>\<open>_checknetloc\<close>: \<open>True\<close> when it returns, \<open>False\<close> when it raises \<open>ValueError\<close>.\<close>

definition checknetloc :: "env \<Rightarrow> str \<Rightarrow> bool" where
  "checknetloc e netloc =
     (if netloc = [] \<or> list_all (\<lambda>c. c < 128) netloc then True
      else
        (let n = filter (\<lambda>c. c \<noteq> 64 \<and> c \<noteq> 58 \<and> c \<noteq> 35 \<and> c \<noteq> 63) netloc;
             netloc2 = nfkc e n
         in if n = netloc2 then True
            else \<not> list_ex (\<lambda>c. c = 47 \<or> c = 63 \<or> c = 35 \<or> c = 64 \<or> c = 58) netloc2))"

record split_result =
  sr_scheme :: str
  sr_netloc :: str
  sr_path :: str
  sr_query :: str
  sr_fragment :: str

text \<open>\<open>urlsplit(url, scheme, allow_fragments=True)\<close>.\<close>

definition urlsplit :: "env \<Rightarrow> str \<Rightarrow> str \<Rightarrow> exn + split_result" where
  "urlsplit e url0 scheme0 =
     (let (scheme, url1) =
            split_scheme (clean_url url0)
              (filter (\<lambda>c. c \<noteq> 9 \<and> c \<noteq> 13 \<and> c \<noteq> 10)
                 (rev (dropWhile (\<lambda>c. c \<le> 32) (rev (dropWhile (\<lambda>c. c \<le> 32) scheme0)))));
          has_netloc = startswith url1 (lit ''//'');
          netloc = (if has_netloc then fst (splitnetloc url1) else []);
          url2 = (if has_netloc then snd (splitnetloc url1) else url1)
      in
        if has_netloc \<and> ((91 \<in> set netloc \<and> 93 \<notin> set netloc) \<or> (93 \<in> set netloc \<and> 91 \<notin> set netloc))
        then Inl ValueError
        else if has_netloc \<and> 91 \<in> set netloc \<and> 93 \<in> set netloc \<and>
                \<not> check_bracketed_host e (before 93 (after 91 netloc))
        then Inl ValueError
        else
          (let fragment = (if 35 \<in> set url2 then after 35 url2 else []);
               url3 = (if 35 \<in> set url2 then before 35 url2 else url2);
               query = (if 63 \<in> set url3 then after 63 url3 else []);
               url4 = (if 63 \<in> set url3 then before 63 url3 else url3)
           in if \<not> checknetloc e netloc then Inl ValueError
              else Inr \<lparr>sr_scheme = scheme, sr_netloc = netloc, sr_path = url4,
                         sr_query = query, sr_fragment = fragment\<rparr>))"

record parse_result =
  pr_scheme :: str
  pr_netloc :: str
  pr_path :: str
  pr_params :: str
  pr_query :: str
  pr_fragment :: str

text \<open>\<open>_splitparams\<close>: the parameters are looked for after the last slash only.\<close>

definition splitparams :: "str \<Rightarrow> str \<times> str" where
  "splitparams url =
     (if 47 \<in> set url then
        (let lastseg = rev (takeWhile (\<lambda>c. c \<noteq> 47) (rev url));
             front = take (length url - length lastseg) url
         in if 59 \<in> set lastseg then (front @ before 59 lastseg, after 59 lastseg)
            else (url, []))
      else (before 59 url, after 59 url))"

text \<open>\<open>urlparse(url, scheme)\<close>.\<close>

definition urlparse :: "env \<Rightarrow> str \<Rightarrow> str \<Rightarrow> exn + parse_result" where
  "urlparse e url scheme0 =
     (case urlsplit e url scheme0 of
        Inl x \<Rightarrow> Inl x
      | Inr r \<Rightarrow>
          (let sp = (if sr_scheme r \<in> set uses_params \<and> 59 \<in> set (sr_path r)
                     then splitparams (sr_path r) else (sr_path r, []))
           in Inr \<lparr>pr_scheme = sr_scheme r, pr_netloc = sr_netloc r, pr_path = fst sp,
                    pr_params = snd sp, pr_query = sr_query r, pr_fragment = sr_fragment r\<rparr>))"

text \<open>\<open>urlunsplit\<close> and \<open>urlunparse\<close>.\<close>

definition urlunsplit :: "str \<Rightarrow> str \<Rightarrow> str \<Rightarrow> str \<Rightarrow> str \<Rightarrow> str" where
  "urlunsplit sch nl url0 q f =
     (let url1 = (if nl \<noteq> [] \<or> (sch \<noteq> [] \<and> sch \<in> set uses_netloc) \<or> startswith url0 (lit ''//'')
                  then lit ''//'' @ nl @
                       (if url0 \<noteq> [] \<and> take 1 url0 \<noteq> lit ''/'' then lit ''/'' @ url0 else url0)
                  else url0);
          url2 = (if sch \<noteq> [] then sch @ lit '':'' @ url1 else url1);
          url3 = (if q \<noteq> [] then url2 @ lit ''?'' @ q else url2)
      in if f \<noteq> [] then url3 @ lit ''#'' @ f else url3)"

definition urlunparse :: "parse_result \<Rightarrow> str" where
  "urlunparse p =
     urlunsplit (pr_scheme p) (pr_netloc p)
       (if pr_params p \<noteq> [] then pr_path p @ lit '';'' @ pr_params p else pr_path p)
       (pr_query p) (pr_fragment p)"

text \<open>The loop of \<open>urljoin\<close> over the path segments: \<open>..\<close> pops (an empty stack stays
  empty), \<open>.\<close> is skipped, anything else is pushed.\<close>

fun resolve_segments :: "str list \<Rightarrow> str list \<Rightarrow> str list" where
  "resolve_segments resolved [] = resolved"
| "resolve_segments resolved (seg # segs) =
     (if seg = lit ''..'' then resolve_segments (butlast resolved) segs
      else if seg = lit ''.'' then resolve_segments resolved segs
      else resolve_segments (resolved @ [seg]) segs)"

text \<open>\<open>segments[1:-1] = filter(None, segments[1:-1])\<close>.\<close>

definition drop_empty_inner :: "str list \<Rightarrow> str list" where
  "drop_empty_inner segs =
     (if length segs < 2 then segs
      else hd segs # filter (\<lambda>s. s \<noteq> []) (butlast (tl segs)) @ [last segs])"

text \<open>\<open>urljoin(base, url)\<close>.\<close>

definition urljoin :: "env \<Rightarrow> str \<Rightarrow> str \<Rightarrow> exn + str" where
  "urljoin e base url =
     (if base = [] then Inr url
      else if url = [] then Inr base
      else
        (case urlparse e base [] of
           Inl x \<Rightarrow> Inl x
         | Inr b \<Rightarrow>
             (case urlparse e url (pr_scheme b) of
                Inl x \<Rightarrow> Inl x
              | Inr u \<Rightarrow>
                  if pr_scheme u \<noteq> pr_scheme b \<or> pr_scheme u \<notin> set uses_relative then Inr url
                  else if pr_scheme u \<in> set uses_netloc \<and> pr_netloc u \<noteq> [] then Inr (urlunparse u)
                  else
                    (let nl = (if pr_scheme u \<in> set uses_netloc then pr_netloc b else pr_netloc u) in
                     if pr_path u = [] \<and> pr_params u = [] then
                       Inr (urlunparse (u\<lparr>pr_netloc := nl, pr_path := pr_path b, pr_params := pr_params b,
                              pr_query := (if pr_query u = [] then pr_query b else pr_query u)\<rparr>))
                     else
                       (let base_parts0 = split_on 47 (pr_path b);
                            base_parts = (if last base_parts0 \<noteq> [] then butlast base_parts0
                                          else base_parts0);
                            segments = (if take 1 (pr_path u) = lit ''/'' then split_on 47 (pr_path u)
                                        else drop_empty_inner (base_parts @ split_on 47 (pr_path u)));
                            resolved0 = resolve_segments [] segments;
                            resolved = (if last segments = lit ''.'' \<or> last segments = lit ''..''
                                        then resolved0 @ [[]] else resolved0);
                            joined = join 47 resolved
                        in Inr (urlunparse (u\<lparr>pr_netloc := nl,
                                  pr_path := (if joined = [] then lit ''/'' else joined)\<rparr>)))))))"

section \<open>The URL normaliser\<close>

text \<open>\<open>_normalize_music_url\<close> (the leading underscore of the source name is dropped).
  The two library calls can raise \<open>ValueError\<close>, which the function does not catch.\<close>

definition normalize_music_url :: "env \<Rightarrow> str \<Rightarrow> exn + str" where
  "normalize_music_url e url =
     (let normalized = strip url in
      if normalized = [] then Inr []
      else
        (case urlparse e normalized [] of
           Inl x \<Rightarrow> Inl x
         | Inr parsed \<Rightarrow>
             if pr_scheme parsed = lit ''http'' \<or> pr_scheme parsed = lit ''https'' then Inr normalized
             else if startswith normalized (lit ''//'') then Inr (lit ''https:'' @ normalized)
             else urljoin e (MUSIC_API_BASE_URL e) normalized))"

text \<open>The scheme that \<open>urlsplit\<close> finds in a URL (empty when it finds none); it is
  determined before any of the checks that can raise.\<close>

definition url_scheme :: "str \<Rightarrow> str" where
  "url_scheme s = fst (split_scheme (clean_url s) [])"

definition is_http :: "str \<Rightarrow> bool" where
  "is_http s \<longleftrightarrow> s = lit ''http'' \<or> s = lit ''https''"

text \<open>A URL with an explicit \<open>http\<close> or \<open>https\<close> scheme: it has a colon, and the text
  before its first colon is \<open>http\<close> or \<open>https\<close>, in upper or lower case letters.\<close>

definition explicit_http :: "str \<Rightarrow> bool" where
  "explicit_http s \<longleftrightarrow> 58 \<in> set s \<and> is_http (map ascii_lower (before 58 s))"

section \<open>The signer\<close>

definition MUSIC_SIGN_REQUIRED_TYPES :: "str list" where
  "MUSIC_SIGN_REQUIRED_TYPES = [lit ''url'', lit ''lrc'', lit ''pic'']"

text \<open>\<open>_build_music_params\<close>.  The dict is the list of its items in insertion order;
  \<open>params[k] = v\<close> is \<open>AList.update\<close>, which replaces the value of a key already there
  and appends a new key at the end.  The payload is encoded on line 80, the secret on
  line 81; either encoding can raise.\<close>

definition build_music_params :: "env \<Rightarrow> str \<Rightarrow> str \<Rightarrow> str \<Rightarrow> exn + (str \<times> str) list" where
  "build_music_params e server req_type req_id =
     (let req_id_str = req_id;
          params = [(lit ''server'', server), (lit ''type'', req_type), (lit ''id'', req_id_str)]
      in if req_type \<in> set MUSIC_SIGN_REQUIRED_TYPES then
           (if MUSIC_API_TOKEN e = [] then Inl RuntimeError
            else
              (case utf8_encode (server @ req_type @ req_id_str) of
                 Inl x \<Rightarrow> Inl x
               | Inr payload \<Rightarrow>
                   (case utf8_encode (MUSIC_API_TOKEN e) of
                      Inl x \<Rightarrow> Inl x
                    | Inr key \<Rightarrow>
                        (let signature = hmac_sha1_hexdigest e key payload
                         in Inr (AList.update (MUSIC_SIGN_PARAM e) signature params)))))
         else Inr params)"

section \<open>\<open>urllib.parse.urlencode\<close>\<close>

definition hex_digit :: "nat \<Rightarrow> codepoint" where
  "hex_digit n = (if n < 10 then 48 + n else 55 + n)"

definition always_safe :: "nat \<Rightarrow> bool" where
  "always_safe b \<longleftrightarrow>
     is_ascii_alpha b \<or> is_ascii_digit b \<or> b = 95 \<or> b = 46 \<or> b = 45 \<or> b = 126"

text \<open>\<open>quote_plus(s)\<close>: unreserved bytes stay, a space becomes \<open>+\<close>, every other byte
  of the UTF-8 encoding becomes \<open>%XX\<close>.\<close>

definition quote_byte :: "nat \<Rightarrow> str" where
  "quote_byte b =
     (if always_safe b then [b] else if b = 32 then lit ''+''
      else [37, hex_digit (b div 16), hex_digit (b mod 16)])"

definition quote_plus :: "str \<Rightarrow> exn + str" where
  "quote_plus s =
     (case utf8_encode s of Inl x \<Rightarrow> Inl x | Inr bs \<Rightarrow> Inr (concat (map quote_byte bs)))"

text \<open>The loop of \<open>urlencode\<close> over the items: each key and each value is quoted, in
  order, and the first failure is raised.\<close>

fun urlencode_items :: "(str \<times> str) list \<Rightarrow> exn + str list" where
  "urlencode_items [] = Inr []"
| "urlencode_items ((k, v) # ps) =
     (case quote_plus k of
        Inl x \<Rightarrow> Inl x
      | Inr qk \<Rightarrow>
          (case quote_plus v of
             Inl x \<Rightarrow> Inl x
           | Inr qv \<Rightarrow>
               (case urlencode_items ps of
                  Inl x \<Rightarrow> Inl x
                | Inr rest \<Rightarrow> Inr ((qk @ lit ''='' @ qv) # rest))))"

definition urlencode :: "(str \<times> str) list \<Rightarrow> exn + str" where
  "urlencode ps =
     (case urlencode_items ps of Inl x \<Rightarrow> Inl x | Inr parts \<Rightarrow> Inr (join 38 parts))"

section \<open>Process state\<close>

text \<open>One entry of \<open>_search_result_cache\<close>, the dict built in \<open>_search_api\<close>.\<close>

record song_entry =
  se_id :: json
  se_name :: json
  se_artist :: json
  se_url :: str
  se_pic :: json
  se_lrc :: str

text \<open>The dict stored under \<open>playback_state["current_song"]\<close> by \<open>resolve_music_url\<close>.\<close>

record current_song =
  cs_id :: str
  cs_name :: str
  cs_artist :: str
  cs_url :: str
  cs_source_url :: str
  cs_lyric_url :: str

text \<open>The mutable state of the process and the effects observed from outside: the
  requests sent, in order, and the progress values reported to the caller's context.
  The \<open>playlist\<close> and \<open>volume\<close> keys of \<open>playback_state\<close> are not touched by the
  functions modelled here.\<close>

record state =
  sent :: "request list"
  progress :: "nat list"
  search_result_cache :: "str \<rightharpoonup> song_entry"
  playing_song :: "current_song option"
  is_playing :: bool

text \<open>Sending a request: it is appended to the log, and the network answers.\<close>

definition http :: "env \<Rightarrow> request \<Rightarrow> state \<Rightarrow> (exn + response) \<times> state" where
  "http e rq st = (network e (sent st @ [rq]), st\<lparr>sent := sent st @ [rq]\<rparr>)"

text \<open>The three requests of the program: \<open>client.get(MUSIC_API_BASE_URL, params=params,
  timeout=10.0)\<close> on a client that follows redirects or not,
  \<open>client.head(url, timeout=15.0)\<close> and \<open>client.stream("GET", url, timeout=15.0)\<close>, the last
  two on a client that follows redirects.\<close>

definition api_get :: "env \<Rightarrow> bool \<Rightarrow> (str \<times> str) list \<Rightarrow> request" where
  "api_get e follow ps =
     \<lparr>rq_method = GET, rq_follow_redirects = follow, rq_url = MUSIC_API_BASE_URL e,
      rq_params = ps, rq_timeout = 10\<rparr>"

definition head_request :: "str \<Rightarrow> request" where
  "head_request url =
     \<lparr>rq_method = HEAD, rq_follow_redirects = True, rq_url = url, rq_params = [],
      rq_timeout = 15\<rparr>"

definition stream_request :: "str \<Rightarrow> request" where
  "stream_request url =
     \<lparr>rq_method = GET_STREAM, rq_follow_redirects = True, rq_url = url, rq_params = [],
      rq_timeout = 15\<rparr>"

text \<open>The shape of the lyric lookup (and of the search): a plain GET on a client that
  follows redirects.\<close>

definition followed_get :: "request \<Rightarrow> bool" where
  "followed_get q \<longleftrightarrow> rq_method q = GET \<and> rq_follow_redirects q"

text \<open>\<open>if ctx: await ctx.report_progress(n, total=100, message=...)\<close>.\<close>

definition report_progress :: "bool \<Rightarrow> nat \<Rightarrow> state \<Rightarrow> state" where
  "report_progress ctx n st = (if ctx then st\<lparr>progress := progress st @ [n]\<rparr> else st)"

section \<open>The resolution cache\<close>

text \<open>The two accesses to \<open>_search_result_cache\<close>: the assignment
  \<open>_search_result_cache[k] = entry\<close> of \<open>_search_api\<close>, and the guarded read
  \<open>k in _search_result_cache\<close> followed by \<open>_search_result_cache[k]\<close> of
  \<open>resolve_music_url\<close>.  Indexing a dict at a missing key raises \<open>KeyError\<close>, here
  \<open>OtherException\<close>; \<open>Inr None\<close> is the outcome "not found".\<close>

definition cache_put :: "str \<Rightarrow> song_entry \<Rightarrow> (str \<rightharpoonup> song_entry) \<Rightarrow> (str \<rightharpoonup> song_entry)" where
  "cache_put k entry c = c(k \<mapsto> entry)"

definition dict_index :: "(str \<rightharpoonup> song_entry) \<Rightarrow> str \<Rightarrow> exn + song_entry" where
  "dict_index c k = (case c k of None \<Rightarrow> Inl OtherException | Some v \<Rightarrow> Inr v)"

definition cache_get :: "str \<Rightarrow> (str \<rightharpoonup> song_entry) \<Rightarrow> exn + song_entry option" where
  "cache_get k c =
     (if k \<in> dom c then (case dict_index c k of Inl x \<Rightarrow> Inl x | Inr v \<Rightarrow> Inr (Some v))
      else Inr None)"

text \<open>The put of the program, in the loop of \<open>_search_api\<close>:
  \<open>song_id_str = str(song_entry["id"])\<close>, and, if that is not empty,
  \<open>_search_result_cache[song_id_str] = song_entry\<close>.  \<open>str\<close> of a JSON value needs the
  environment, so the key function is a parameter here; \<open>_search_api\<close> passes
  \<open>py_str\<close>.\<close>

definition cache_store ::
  "(json \<Rightarrow> str) \<Rightarrow> song_entry \<Rightarrow> (str \<rightharpoonup> song_entry) \<Rightarrow> (str \<rightharpoonup> song_entry)" where
  "cache_store to_str entry c =
     (let song_id_str = to_str (se_id entry)
      in if song_id_str \<noteq> [] then cache_put song_id_str entry c else c)"

section \<open>The upstream client\<close>

definition DEFAULT_SONG_NAME :: str where
  "DEFAULT_SONG_NAME = [26410, 30693, 27468, 26354]"

definition DEFAULT_ARTIST :: str where
  "DEFAULT_ARTIST = [26410, 30693, 27468, 25163]"

text \<open>\<open>data[:limit]\<close> on a list.\<close>

definition slice_to :: "int \<Rightarrow> 'a list \<Rightarrow> 'a list" where
  "slice_to limit xs =
     (if 0 \<le> limit then take (nat limit) xs else take (nat (int (length xs) + limit)) xs)"

text \<open>The body of the loop of \<open>_search_api\<close> over the items, with the results collected
  so far and the cache.  An item that is not a dict has no \<open>get\<close> (\<open>AttributeError\<close>); the
  normaliser can raise.  The entries cached before an exception stay cached.\<close>

fun search_items ::
  "env \<Rightarrow> json list \<Rightarrow> song_entry list \<Rightarrow> (str \<rightharpoonup> song_entry) \<Rightarrow>
     (exn + song_entry list) \<times> (str \<rightharpoonup> song_entry)" where
  "search_items e [] results c = (Inr results, c)"
| "search_items e (item # items) results c =
     (case item of
        JDict d \<Rightarrow>
          (let raw_url = strip (py_str e (dict_get d (lit ''url'') (JStr []))) in
           case normalize_music_url e raw_url of
             Inl x \<Rightarrow> (Inl x, c)
           | Inr normalized_url \<Rightarrow>
               (let raw_lrc = strip (py_str e (dict_get d (lit ''lrc'') (JStr []))) in
                case (if raw_lrc \<noteq> [] then normalize_music_url e raw_lrc else Inr []) of
                  Inl x \<Rightarrow> (Inl x, c)
                | Inr normalized_lrc \<Rightarrow>
                    (let song_entry =
                           \<lparr>se_id = (if truthy e (dict_get d (lit ''id'') JNull)
                                     then dict_get d (lit ''id'') JNull else JStr normalized_url),
                            se_name = dict_get d (lit ''title'') (JStr DEFAULT_SONG_NAME),
                            se_artist = dict_get d (lit ''author'') (JStr DEFAULT_ARTIST),
                            se_url = normalized_url,
                            se_pic = dict_get d (lit ''pic'') (JStr []),
                            se_lrc = normalized_lrc\<rparr>
                     in search_items e items (results @ [song_entry])
                          (cache_store (py_str e) song_entry c))))
      | _ \<Rightarrow> (Inl OtherException, c))"

text \<open>\<open>_search_api\<close>.  Every exception is caught and gives the empty list.  Slicing a
  JSON value that is not a list either raises or, for a string, yields characters, which
  have no \<open>get\<close>; an empty slice of a string runs no iteration.  In all these cases the
  result is the empty list and the cache is unchanged.\<close>

definition search_api :: "env \<Rightarrow> str \<Rightarrow> int \<Rightarrow> state \<Rightarrow> song_entry list \<times> state" where
  "search_api e query_text limit st =
     (case build_music_params e (lit ''netease'') (lit ''search'') query_text of
        Inl x \<Rightarrow> ([], st)
      | Inr params \<Rightarrow>
          (let (r, st1) = http e (api_get e True params) st
           in case r of
                Inl x \<Rightarrow> ([], st1)
              | Inr resp \<Rightarrow>
                  if status_code resp \<noteq> 200 then ([], st1)
                  else
                    (case json_body resp of
                       Inr (JList items) \<Rightarrow>
                         (let (res, c) = search_items e (slice_to limit items) []
                                           (search_result_cache st1)
                          in (case res of Inl x \<Rightarrow> [] | Inr results \<Rightarrow> results,
                              st1\<lparr>search_result_cache := c\<rparr>))
                     | _ \<Rightarrow> ([], st1))))"

text \<open>\<open>_fetch_song_url\<close>.\<close>

definition fetch_song_url :: "env \<Rightarrow> str \<Rightarrow> state \<Rightarrow> str \<times> state" where
  "fetch_song_url e song_id st =
     (case build_music_params e (lit ''netease'') (lit ''url'') song_id of
        Inl x \<Rightarrow> ([], st)
      | Inr params \<Rightarrow>
          (let (r, st1) = http e (api_get e False params) st
           in case r of
                Inl x \<Rightarrow> ([], st1)
              | Inr resp \<Rightarrow>
                  if status_code resp \<in> {301, 302, 303, 307, 308} then
                    (let loc = (case location resp of None \<Rightarrow> [] | Some l \<Rightarrow> l)
                     in if loc \<noteq> [] then (strip loc, st1) else ([], st1))
                  else if status_code resp \<noteq> 200 then ([], st1)
                  else
                    (case json_body resp of
                       Inl x \<Rightarrow> ([], st1)
                     | Inr (JStr s) \<Rightarrow> (strip s, st1)
                     | Inr (JList (JStr s # rest)) \<Rightarrow> (strip s, st1)
                     | Inr (JList (JDict d # rest)) \<Rightarrow>
                         (strip (py_str e (dict_get d (lit ''url'') (JStr []))), st1)
                     | Inr other \<Rightarrow> ([], st1))))"

text \<open>\<open>str(d.get("lyric") or d.get("lrc") or "")\<close>.\<close>

definition lyric_or_lrc :: "env \<Rightarrow> (str \<times> json) list \<Rightarrow> str" where
  "lyric_or_lrc e d =
     (if truthy e (dict_get d (lit ''lyric'') JNull) then py_str e (dict_get d (lit ''lyric'') JNull)
      else if truthy e (dict_get d (lit ''lrc'') JNull) then py_str e (dict_get d (lit ''lrc'') JNull)
      else [])"

text \<open>\<open>_fetch_song_lyric\<close>.  The inner handler catches \<open>ValueError\<close> and its
  subclasses, the outer one everything else.\<close>

definition fetch_song_lyric :: "env \<Rightarrow> str \<Rightarrow> state \<Rightarrow> str \<times> state" where
  "fetch_song_lyric e song_id st =
     (case build_music_params e (lit ''netease'') (lit ''lrc'') song_id of
        Inl x \<Rightarrow> ([], st)
      | Inr params \<Rightarrow>
          (let (r, st1) = http e (api_get e True params) st
           in case r of
                Inl x \<Rightarrow> ([], st1)
              | Inr resp \<Rightarrow>
                  if status_code resp \<noteq> 200 then ([], st1)
                  else
                    (let raw_text = strip (resp_text resp) in
                     if raw_text = [] then ([], st1)
                     else
                       (case json_loads e raw_text of
                          Inl JSONDecodeError \<Rightarrow> (raw_text, st1)
                        | Inl ValueError \<Rightarrow> (raw_text, st1)
                        | Inl UnicodeEncodeError \<Rightarrow> (raw_text, st1)
                        | Inl x \<Rightarrow> ([], st1)
                        | Inr (JStr s) \<Rightarrow> (strip s, st1)
                        | Inr (JList (JStr s # rest)) \<Rightarrow> (strip s, st1)
                        | Inr (JList (JDict d # rest)) \<Rightarrow> (strip (lyric_or_lrc e d), st1)
                        | Inr (JDict d) \<Rightarrow> (strip (lyric_or_lrc e d), st1)
                        | Inr other \<Rightarrow> (raw_text, st1)))))"

text \<open>The JSON values from which \<open>_fetch_song_lyric\<close> extracts a lyric: a string, a dict,
  and a list whose first element is a string or a dict.\<close>

fun lyric_shape :: "json \<Rightarrow> bool" where
  "lyric_shape (JStr s) = True"
| "lyric_shape (JDict d) = True"
| "lyric_shape (JList (JStr s # rest)) = True"
| "lyric_shape (JList (JDict d # rest)) = True"
| "lyric_shape v = False"

section \<open>The redirect resolver\<close>

text \<open>\<open>_resolve_final_url\<close>.  The call of the normaliser stands before the first
  \<open>try\<close>; each of the two requests is inside its own \<open>try\<close> that catches everything.\<close>

definition resolve_final_url :: "env \<Rightarrow> str \<Rightarrow> state \<Rightarrow> (exn + str) \<times> state" where
  "resolve_final_url e url st =
     (case normalize_music_url e url of
        Inl x \<Rightarrow> (Inl x, st)
      | Inr normalized_url \<Rightarrow>
          if normalized_url = [] then (Inr [], st)
          else
            (let (r1, st1) = http e (head_request normalized_url) st
             in case (case r1 of
                        Inl x \<Rightarrow> None
                      | Inr resp \<Rightarrow>
                          if status_code resp = 200 \<or> status_code resp = 206
                          then Some (final_url resp) else None) of
                  Some u \<Rightarrow> (Inr u, st1)
                | None \<Rightarrow>
                    (let (r2, st2) = http e (stream_request normalized_url) st1
                     in case (case r2 of
                                Inl x \<Rightarrow> None
                              | Inr resp \<Rightarrow>
                                  if status_code resp = 200 then Some (final_url resp) else None) of
                          Some u \<Rightarrow> (Inr u, st2)
                        | None \<Rightarrow> (Inr normalized_url, st2))))"

section \<open>The orchestrator\<close>

text \<open>Truth value of a \<open>str | None\<close>.\<close>

definition truthy_id :: "str option \<Rightarrow> bool" where
  "truthy_id x = (case x of None \<Rightarrow> False | Some s \<Rightarrow> s \<noteq> [])"

text \<open>\<open>song_id or id\<close>, and the string of a \<open>str | None\<close> that is used only when it is
  true.\<close>

definition id_or :: "str option \<Rightarrow> str option \<Rightarrow> str option" where
  "id_or a b = (if truthy_id a then a else b)"

definition id_text :: "str option \<Rightarrow> str" where
  "id_text x = (case x of None \<Rightarrow> [] | Some s \<Rightarrow> s)"

text \<open>\<open>_build_lyric_url\<close>.  Only \<open>RuntimeError\<close> is caught; an encoding error of the
  signer or of \<open>urlencode\<close> leaves the function.\<close>

definition build_lyric_url :: "env \<Rightarrow> str option \<Rightarrow> str \<Rightarrow> exn + str" where
  "build_lyric_url e song_id lrc =
     (if lrc \<noteq> [] \<and> strip lrc \<noteq> [] then Inr (strip lrc)
      else
        (case song_id of
           None \<Rightarrow> Inr []
         | Some sid \<Rightarrow>
             if sid = [] then Inr []
             else
               (case build_music_params e (lit ''netease'') (lit ''lrc'') sid of
                  Inr params \<Rightarrow>
                    (case urlencode params of
                       Inl x \<Rightarrow> Inl x
                     | Inr encoded \<Rightarrow> Inr (MUSIC_API_BASE_URL e @ lit ''?'' @ encoded))
                | Inl RuntimeError \<Rightarrow> Inr []
                | Inl x \<Rightarrow> Inl x)))"

definition MSG_MISSING_SONG_INFO :: str where
  "MSG_MISSING_SONG_INFO = [32570, 23569, 27468, 26354, 20449, 24687, 65292, 35831, 33267,
     23569, 20256, 20837, 32, 105, 100, 47, 115, 111, 110, 103, 95, 105, 100, 32, 25110, 32,
     117, 114, 108]"

definition MSG_LOOKUP_FAILED :: str where
  "MSG_LOOKUP_FAILED = [26597, 35810, 25773, 25918, 22320, 22336, 22833, 36133, 65292, 35831,
     31245, 21518, 37325, 35797]"

text \<open>The dict that \<open>resolve_music_url\<close> serialises with \<open>json.dumps\<close>.\<close>

record resolve_result =
  song_name :: str
  artist :: str
  result_final_url :: str
  lyric_url :: str
  has_lyric :: bool
  next_tool :: str
  next_arguments :: "(str \<times> str) list"

text \<open>What the tool returns: a plain message, or the JSON text of a result dict (kept
  here as the dict itself).\<close>

datatype tool_output = Message str | Json resolve_result

text \<open>The variable \<open>effective_lrc\<close> of \<open>resolve_music_url\<close>: the argument \<open>lrc\<close>, or, when
  that is empty and the resolved song id is in the cache, the lyric URL of the cached
  entry.\<close>

definition effective_lrc ::
  "str \<Rightarrow> str option \<Rightarrow> (str \<rightharpoonup> song_entry) \<Rightarrow> exn + str" where
  "effective_lrc lrc resolved_song_id c =
     (let cache_key = (if truthy_id resolved_song_id then id_text resolved_song_id else []) in
      if lrc = [] \<and> cache_key \<noteq> [] then
        (case cache_get cache_key c of
           Inl x \<Rightarrow> Inl x
         | Inr None \<Rightarrow> Inr lrc
         | Inr (Some cached) \<Rightarrow> Inr (se_lrc cached))
      else Inr lrc)"

text \<open>The lyric reference of \<open>resolve_music_url\<close> (lines 352 to 367): the lyric URL and
  the lyric text.  The text is fetched only when no lyric URL was found and there is
  a song id.\<close>

definition lyric_reference ::
  "env \<Rightarrow> str option \<Rightarrow> str \<Rightarrow> bool \<Rightarrow> state \<Rightarrow> (exn + str \<times> str) \<times> state" where
  "lyric_reference e resolved_song_id lrc ctx st3 =
     (case effective_lrc lrc resolved_song_id (search_result_cache st3) of
        Inl x \<Rightarrow> (Inl x, st3)
      | Inr effective \<Rightarrow>
          (case build_lyric_url e resolved_song_id effective of
             Inl x \<Rightarrow> (Inl x, st3)
           | Inr lyric_url_v \<Rightarrow>
               (let (lyric_text, st4) =
                      (if lyric_url_v = [] \<and> truthy_id resolved_song_id
                       then fetch_song_lyric e (id_text resolved_song_id)
                              (report_progress ctx 70 st3)
                       else ([], st3))
                in (Inr (lyric_url_v, lyric_text), st4))))"

text \<open>\<open>resolve_music_url\<close>, second part (from the progress report 55 to the end): the
  final URL, the lyric reference, the playback state and the result, for the resolved
  song id and the source URL found by the first part.  An exception in the lyric
  reference leaves the function.\<close>

definition resolve_from_source ::
  "env \<Rightarrow> str option \<Rightarrow> str \<Rightarrow> str \<Rightarrow> str \<Rightarrow> bool \<Rightarrow> str \<Rightarrow> state \<Rightarrow>
     (exn + tool_output) \<times> state" where
  "resolve_from_source e resolved_song_id name_arg artist_arg lrc ctx source_url st2 =
     (let rid = id_text resolved_song_id;
          (fin, st3) = resolve_final_url e source_url (report_progress ctx 55 st2)
      in
      case fin of
        Inl x \<Rightarrow> (Inl x, st3)
      | Inr final \<Rightarrow>
          (case lyric_reference e resolved_song_id lrc ctx st3 of
             (Inl x, st4) \<Rightarrow> (Inl x, st4)
           | (Inr (lyric_url_v, lyric_text), st4) \<Rightarrow>
               (let st5 = report_progress ctx 80 st4;
                    st6 = st5\<lparr>playing_song :=
                                 Some \<lparr>cs_id = (if truthy_id resolved_song_id then rid
                                                 else source_url),
                                       cs_name = name_arg, cs_artist = artist_arg,
                                       cs_url = final, cs_source_url = source_url,
                                       cs_lyric_url = lyric_url_v\<rparr>,
                               is_playing := False\<rparr>;
                    st7 = report_progress ctx 100 st6;
                    next_args0 = [(lit ''url'', final), (lit ''title'', name_arg),
                                  (lit ''artist'', artist_arg)];
                    next_args =
                      (if lyric_url_v \<noteq> []
                       then AList.update (lit ''lyric_url'') lyric_url_v next_args0
                       else if lyric_text \<noteq> []
                       then AList.update (lit ''lyric'') lyric_text next_args0
                       else next_args0)
                in (Inr (Json \<lparr>song_name = name_arg, artist = artist_arg,
                               result_final_url = final, lyric_url = lyric_url_v,
                               has_lyric = (lyric_url_v \<noteq> [] \<or> lyric_text \<noteq> []),
                               next_tool = lit ''self.music.play_url'',
                               next_arguments = next_args\<rparr>),
                    st7))))"

text \<open>\<open>resolve_music_url\<close>, first part (up to the lookup of the play URL), followed by
  the second.  \<open>ctx\<close> tells whether a context was passed.  The argument \<open>lyric\<close> is
  accepted and never read.\<close>

definition resolve_music_url ::
  "env \<Rightarrow> str option \<Rightarrow> str option \<Rightarrow> str \<Rightarrow> str \<Rightarrow> str \<Rightarrow> str \<Rightarrow> str \<Rightarrow> bool \<Rightarrow> state \<Rightarrow>
     (exn + tool_output) \<times> state" where
  "resolve_music_url e id_arg song_id name_arg artist_arg url lrc lyric ctx st0 =
     (let resolved_song_id = id_or song_id id_arg in
      if \<not> truthy_id resolved_song_id \<and> url = [] then (Inr (Message MSG_MISSING_SONG_INFO), st0)
      else
        (let st1 = report_progress ctx 10 st0 in
         case normalize_music_url e url of
           Inl x \<Rightarrow> (Inl x, st1)
         | Inr source_url0 \<Rightarrow>
             if source_url0 = [] \<and> truthy_id resolved_song_id then
               (let (source_url, st2) =
                      fetch_song_url e (id_text resolved_song_id) (report_progress ctx 25 st1)
                in if source_url = [] then (Inr (Message MSG_LOOKUP_FAILED), st2)
                   else resolve_from_source e resolved_song_id name_arg artist_arg lrc ctx
                          source_url st2)
             else resolve_from_source e resolved_song_id name_arg artist_arg lrc ctx
                    source_url0 st1))"

section \<open>An example environment\<close>

text \<open>An environment with the default base URL and signature parameter name, a given
  signing secret and a given network.  The library functions are stand-ins; the theorems
  below hold for every environment, and this one only serves to run the definitions on
  concrete inputs.\<close>

definition example_env :: "str \<Rightarrow> (request list \<Rightarrow> exn + response) \<Rightarrow> env" where
  "example_env token net =
     \<lparr>MUSIC_API_BASE_URL = lit ''https://api.i-meto.com/meting/api'',
      MUSIC_API_TOKEN = token,
      MUSIC_SIGN_PARAM = lit ''auth'',
      hmac_sha1_hexdigest = (\<lambda>key msg. map (\<lambda>b. hex_digit (b mod 16)) (key @ msg)),
      is_ipv6_address = (\<lambda>h. False),
      nfkc = (\<lambda>s. s),
      json_loads = (\<lambda>s. Inl JSONDecodeError),
      float_nonzero = (\<lambda>f. True),
      py_repr = (\<lambda>v. lit ''?''),
      network = net\<rparr>"

text \<open>A network on which every request fails.\<close>

definition offline :: "request list \<Rightarrow> exn + response" where
  "offline l = Inl OtherException"

text \<open>A network that answers every request with the same response.\<close>

definition answering :: "response \<Rightarrow> request list \<Rightarrow> exn + response" where
  "answering resp l = Inr resp"

definition example_response :: "int \<Rightarrow> str option \<Rightarrow> str \<Rightarrow> exn + json \<Rightarrow> response" where
  "example_response st loc body parsed =
     \<lparr>status_code = st, location = loc, resp_text = body, json_body = parsed,
      final_url = lit ''https://cdn.example/x.mp3''\<rparr>"

text \<open>A stand-in for \<open>json.loads\<close> that knows the empty object \<open>{}\<close> and the string \<open>la\<close> in double
  quotes.\<close>

definition loads_example :: "str \<Rightarrow> exn + json" where
  "loads_example s =
     (if s = lit ''{}'' then Inr (JDict [])
      else if s = [34, 108, 97, 34] then Inr (JStr (lit ''la''))
      else Inl JSONDecodeError)"

text \<open>A cached search result for the song id 42, and a state that holds it.\<close>

definition example_entry :: song_entry where
  "example_entry =
     \<lparr>se_id = JStr (lit ''42''), se_name = JStr (lit ''t''), se_artist = JStr (lit ''a''),
      se_url = lit ''http://x/y'', se_pic = JStr [], se_lrc = lit ''http://l/1.lrc''\<rparr>"

definition initial_state :: state where
  "initial_state = \<lparr>sent = [], progress = [], search_result_cache = Map.empty,
                     playing_song = None, is_playing = False\<rparr>"

text \<open>Two search results with the same id, the JSON array that a search returning them
  parses, and the two cache entries built from them.\<close>

definition example_hits :: json where
  "example_hits =
     JList [JDict [(lit ''id'', JStr (lit ''7'')), (lit ''title'', JStr (lit ''A'')),
                   (lit ''author'', JStr (lit ''x'')), (lit ''url'', JStr (lit ''http://u/1'')),
                   (lit ''lrc'', JStr (lit ''http://l/1.lrc''))],
            JDict [(lit ''id'', JStr (lit ''7'')), (lit ''title'', JStr (lit ''B'')),
                   (lit ''author'', JStr (lit ''x'')), (lit ''url'', JStr (lit ''http://u/2'')),
                   (lit ''lrc'', JStr (lit ''http://l/2.lrc''))]]"

definition example_hit_a :: song_entry where
  "example_hit_a =
     \<lparr>se_id = JStr (lit ''7''), se_name = JStr (lit ''A''), se_artist = JStr (lit ''x''),
      se_url = lit ''http://u/1'', se_pic = JStr [], se_lrc = lit ''http://l/1.lrc''\<rparr>"

definition example_hit_b :: song_entry where
  "example_hit_b =
     \<lparr>se_id = JStr (lit ''7''), se_name = JStr (lit ''B''), se_artist = JStr (lit ''x''),
      se_url = lit ''http://u/2'', se_pic = JStr [], se_lrc = lit ''http://l/2.lrc''\<rparr>"

definition cached_state :: state where
  "cached_state = initial_state\<lparr>search_result_cache := [lit ''42'' \<mapsto> example_entry]\<rparr>"

section \<open>Basic facts\<close>

lemma lit_simps: "lit [] = []" "lit (c # cs) = of_char c # lit cs"
  by (simp_all add: lit_def)

lemmas url_defs = urlparse_def urlsplit_def clean_url_def split_scheme_def before_def after_def
  is_ascii_alpha_def scheme_char_def is_ascii_digit_def ascii_lower_def startswith_def
  splitnetloc_def netloc_delim_def checknetloc_def uses_params_def

lemmas strip_defs = strip_def lstrip_def rstrip_def isspace_def

lemma strip_blank: "list_all isspace s \<Longrightarrow> strip s = []"
proof -
  assume "list_all isspace s"
  then have h: "dropWhile isspace s = []" by (simp add: list_all_iff)
  show ?thesis by (simp only: strip_def lstrip_def rstrip_def h rev.simps dropWhile.simps)
qed

lemma urlparse_scheme: "urlparse e s [] = Inr p \<Longrightarrow> pr_scheme p = url_scheme s"
  by (auto simp: urlparse_def urlsplit_def url_scheme_def Let_def
      split: sum.splits prod.splits if_splits)

lemma slashes_no_scheme: "startswith t (lit ''//'') \<Longrightarrow> url_scheme t = []"
  by (cases t; simp add: startswith_def lit_simps url_scheme_def clean_url_def split_scheme_def
      is_ascii_alpha_def Let_def)

lemma normalize_empty: "normalize_music_url e [] = Inr []"
  by (simp add: normalize_music_url_def strip_def lstrip_def rstrip_def)

lemma normalize_http_example:
  "normalize_music_url e (lit ''http://x/y'') = Inr (lit ''http://x/y'')"
  by (simp add: normalize_music_url_def strip_defs lit_simps url_defs Let_def)

lemma normalize_protocol_relative_example:
  "normalize_music_url e (lit ''//x/y'') = Inr (lit ''https://x/y'')"
  by (simp add: normalize_music_url_def strip_defs lit_simps url_defs Let_def)

section \<open>Properties of the URL normaliser\<close>

text \<open>
  Claim C4, as stated, fails: an input with an \<open>http\<close> scheme and a trailing space is
  not returned unchanged, it is returned trimmed.
\<close>

theorem normalize_music_url_rules_counterexample:
  "map_sum id pr_scheme (urlparse (example_env [] offline) (lit ''http://x/y '') [])
     = Inr (lit ''http'') \<and>
   normalize_music_url (example_env [] offline) (lit ''http://x/y '')
     = Inr (lit ''http://x/y'') \<and>
   normalize_music_url (example_env [] offline) (lit ''http://x/y '')
     \<noteq> Inr (lit ''http://x/y '')"
  by (simp add: normalize_music_url_def strip_defs lit_simps url_defs Let_def example_env_def)

text \<open>
  Claim C4, amended.  The rules apply, in order, to the input trimmed of surrounding
  whitespace: an empty or whitespace-only input gives the empty string; when the trimmed
  input parses, it is returned as it is if its scheme is \<open>http\<close> or \<open>https\<close>, it is
  returned with \<open>https:\<close> in front if it starts with \<open>//\<close>, and otherwise the result is
  that of \<open>urljoin\<close> of the configured base URL and the trimmed input.  In particular
  the normaliser maps the empty string to itself, \<open>http://x/y\<close> to itself and \<open>//x/y\<close>
  to \<open>https://x/y\<close>.
\<close>

theorem normalize_music_url_rules:
  "(list_all isspace url \<longrightarrow> normalize_music_url e url = Inr []) \<and>
   (strip url \<noteq> [] \<and> urlparse e (strip url) [] = Inr p \<and> is_http (pr_scheme p) \<longrightarrow>
      normalize_music_url e url = Inr (strip url)) \<and>
   (startswith (strip url) (lit ''//'') \<and> urlparse e (strip url) [] = Inr p \<longrightarrow>
      normalize_music_url e url = Inr (lit ''https:'' @ strip url)) \<and>
   (strip url \<noteq> [] \<and> urlparse e (strip url) [] = Inr p \<and> \<not> is_http (pr_scheme p) \<and>
    \<not> startswith (strip url) (lit ''//'') \<longrightarrow>
      normalize_music_url e url = urljoin e (MUSIC_API_BASE_URL e) (strip url)) \<and>
   normalize_music_url e [] = Inr [] \<and>
   normalize_music_url e (lit ''http://x/y'') = Inr (lit ''http://x/y'') \<and>
   normalize_music_url e (lit ''//x/y'') = Inr (lit ''https://x/y'')"
proof -
  have a: "list_all isspace url \<longrightarrow> normalize_music_url e url = Inr []"
    by (simp add: normalize_music_url_def strip_blank)
  have b: "strip url \<noteq> [] \<and> urlparse e (strip url) [] = Inr p \<and> is_http (pr_scheme p) \<longrightarrow>
      normalize_music_url e url = Inr (strip url)"
    by (auto simp: normalize_music_url_def is_http_def)
  have c: "startswith (strip url) (lit ''//'') \<and> urlparse e (strip url) [] = Inr p \<longrightarrow>
      normalize_music_url e url = Inr (lit ''https:'' @ strip url)"
  proof (intro impI, elim conjE)
    assume s: "startswith (strip url) (lit ''//'')" and u: "urlparse e (strip url) [] = Inr p"
    from s have ne: "strip url \<noteq> []" by (auto simp: startswith_def lit_simps)
    from u s have "pr_scheme p = []" by (simp add: urlparse_scheme slashes_no_scheme)
    then have "pr_scheme p \<noteq> lit ''http''" "pr_scheme p \<noteq> lit ''https''"
      by (simp_all add: lit_simps)
    with s u ne show "normalize_music_url e url = Inr (lit ''https:'' @ strip url)"
      by (simp add: normalize_music_url_def)
  qed
  have d: "strip url \<noteq> [] \<and> urlparse e (strip url) [] = Inr p \<and> \<not> is_http (pr_scheme p) \<and>
    \<not> startswith (strip url) (lit ''//'') \<longrightarrow>
      normalize_music_url e url = urljoin e (MUSIC_API_BASE_URL e) (strip url)"
    by (auto simp: normalize_music_url_def is_http_def)
  from a b c d normalize_empty normalize_http_example normalize_protocol_relative_example
  show ?thesis by blast
qed

theorem normalize_music_url_rules_witness:
  "list_all isspace (lit ''  '') \<and>
   normalize_music_url (example_env [] offline) (lit ''  '') = Inr [] \<and>
   normalize_music_url (example_env [] offline) (lit '' HTTPS://x/y '')
     = Inr (lit ''HTTPS://x/y'') \<and>
   normalize_music_url (example_env [] offline) (lit ''//x/y '') = Inr (lit ''https://x/y'') \<and>
   normalize_music_url (example_env [] offline) (lit ''/api?id=1'')
     = Inr (lit ''https://api.i-meto.com/api?id=1'')"
  using
    normalize_music_url_rules [where e = "example_env [] offline" and url = "lit ''  ''"]
    normalize_music_url_rules [where e = "example_env [] offline"
      and url = "lit '' HTTPS://x/y ''"
      and p = "\<lparr>pr_scheme = lit ''https'', pr_netloc = lit ''x'', pr_path = lit ''/y'',
                 pr_params = [], pr_query = [], pr_fragment = []\<rparr>"]
    normalize_music_url_rules [where e = "example_env [] offline" and url = "lit ''//x/y ''"
      and p = "\<lparr>pr_scheme = [], pr_netloc = lit ''x'', pr_path = lit ''/y'',
                 pr_params = [], pr_query = [], pr_fragment = []\<rparr>"]
    normalize_music_url_rules [where e = "example_env [] offline" and url = "lit ''/api?id=1''"
      and p = "\<lparr>pr_scheme = [], pr_netloc = [], pr_path = lit ''/api'',
                 pr_params = [], pr_query = lit ''id=1'', pr_fragment = []\<rparr>"]
  by (simp add: strip_defs lit_simps url_defs Let_def example_env_def is_http_def urljoin_def
      uses_relative_def uses_netloc_def urlunparse_def urlunsplit_def drop_empty_inner_def)

section \<open>The scheme of a normalised URL\<close>

lemma is_http_clean:
  "is_http bs \<Longrightarrow>
     filter (\<lambda>c. c \<noteq> 9 \<and> c \<noteq> 13 \<and> c \<noteq> 10)
       (rev (dropWhile (\<lambda>c. c \<le> 32) (rev (dropWhile (\<lambda>c. c \<le> 32) bs)))) = bs"
  by (auto simp: is_http_def lit_simps)

lemma split_scheme_default:
  "fst (split_scheme c []) = [] \<Longrightarrow> split_scheme c d = (d, c)"
  by (auto simp: split_scheme_def Let_def split: if_splits)

lemma split_scheme_found:
  "fst (split_scheme c []) \<noteq> [] \<Longrightarrow>
     split_scheme c d = (map ascii_lower (before 58 c), after 58 c)"
  by (auto simp: split_scheme_def Let_def split: if_splits)

lemma urlparse_default_scheme:
  "url_scheme t = [] \<Longrightarrow> is_http bs \<Longrightarrow> urlparse e t bs = Inr u \<Longrightarrow> pr_scheme u = bs"
  by (auto simp: urlparse_def urlsplit_def url_scheme_def Let_def split_scheme_default
      is_http_clean split: sum.splits if_splits)

lemma urlparse_found_scheme:
  assumes s: "url_scheme t \<noteq> []" and u: "urlparse e t bs = Inr u"
  shows "pr_scheme u = url_scheme t"
proof -
  from s have f: "fst (split_scheme (clean_url t) []) \<noteq> []" by (simp add: url_scheme_def)
  have a: "split_scheme (clean_url t) d
             = (map ascii_lower (before 58 (clean_url t)), after 58 (clean_url t))" for d
    using f by (rule split_scheme_found)
  from u obtain r where r: "urlsplit e t bs = Inr r" and ur: "pr_scheme u = sr_scheme r"
    by (auto simp: urlparse_def Let_def split: sum.splits)
  from r have "sr_scheme r = map ascii_lower (before 58 (clean_url t))"
    unfolding urlsplit_def a by (auto simp: Let_def split: if_splits)
  with ur show ?thesis by (simp add: url_scheme_def a)
qed

lemma explicit_http_prefix: "is_http bs \<Longrightarrow> explicit_http (bs @ lit '':'' @ rest)"
  by (auto simp: is_http_def lit_simps explicit_http_def before_def ascii_lower_def)

lemma explicit_http_of_scheme:
  "clean_url t = t \<Longrightarrow> is_http (url_scheme t) \<Longrightarrow> explicit_http t"
  by (auto simp: url_scheme_def split_scheme_def explicit_http_def Let_def is_http_def lit_simps
      split: if_splits)

lemma urlunsplit_prefix:
  "sch \<noteq> [] \<Longrightarrow> \<exists>rest. urlunsplit sch nl u q f = sch @ lit '':'' @ rest"
  by (simp add: urlunsplit_def Let_def)

lemma urlunparse_prefix:
  "pr_scheme p \<noteq> [] \<Longrightarrow> \<exists>rest. urlunparse p = pr_scheme p @ lit '':'' @ rest"
  by (simp add: urlunparse_def urlunsplit_prefix)

lemma is_http_relative: "is_http bs \<Longrightarrow> bs \<in> set uses_relative"
  by (auto simp: is_http_def uses_relative_def)

lemma is_http_nonempty: "is_http bs \<Longrightarrow> bs \<noteq> []"
  by (auto simp: is_http_def lit_simps)

lemma url_scheme_empty: "url_scheme [] = []"
  by (simp add: url_scheme_def clean_url_def split_scheme_def before_def)

text \<open>Joining a reference without a scheme to a base with an \<open>http\<close> or \<open>https\<close> scheme
  gives a URL that starts with the scheme of the base.\<close>

lemma urljoin_scheme:
  assumes b: "is_http (url_scheme base)" and t: "url_scheme t = []" and ne: "t \<noteq> []"
    and j: "urljoin e base t = Inr out"
  shows "\<exists>rest. out = url_scheme base @ lit '':'' @ rest"
proof -
  from b have bne: "base \<noteq> []" using is_http_nonempty url_scheme_empty by fastforce
  from j bne ne obtain pb where pb: "urlparse e base [] = Inr pb"
    by (auto simp: urljoin_def split: sum.splits)
  then have sb: "pr_scheme pb = url_scheme base" by (rule urlparse_scheme)
  from j bne ne pb obtain u where u: "urlparse e t (pr_scheme pb) = Inr u"
    by (auto simp: urljoin_def split: sum.splits)
  with t b sb have su: "pr_scheme u = url_scheme base"
    using urlparse_default_scheme by metis
  have rel: "pr_scheme u \<in> set uses_relative" using su b is_http_relative by simp
  have sne: "pr_scheme u \<noteq> []" using su b is_http_nonempty by simp
  from j bne ne pb u su sb rel obtain q where "out = urlunparse q" and "pr_scheme q = pr_scheme u"
    by (auto simp: urljoin_def Let_def split: if_splits)
  then show ?thesis using urlunparse_prefix [of q] sne su by auto
qed

text \<open>Joining a reference with a scheme that is neither \<open>http\<close> nor \<open>https\<close> to such a
  base returns the reference.\<close>

lemma urljoin_other_scheme:
  assumes b: "is_http (url_scheme base)" and t: "url_scheme t \<noteq> []"
    and o: "\<not> is_http (url_scheme t)" and j: "urljoin e base t = Inr out"
  shows "out = t"
proof -
  from b have bne: "base \<noteq> []" using is_http_nonempty url_scheme_empty by fastforce
  from t have ne: "t \<noteq> []" using url_scheme_empty by auto
  from j bne ne obtain pb where pb: "urlparse e base [] = Inr pb"
    by (auto simp: urljoin_def split: sum.splits)
  then have sb: "pr_scheme pb = url_scheme base" by (rule urlparse_scheme)
  from j bne ne pb obtain u where u: "urlparse e t (pr_scheme pb) = Inr u"
    by (auto simp: urljoin_def split: sum.splits)
  with t have su: "pr_scheme u = url_scheme t" by (rule urlparse_found_scheme)
  with b o sb have "pr_scheme u \<noteq> pr_scheme pb" by auto
  with j bne ne pb u show ?thesis by (simp add: urljoin_def)
qed

text \<open>
  Claim C5, as stated, fails in three ways: an input with the scheme \<open>ftp\<close> is returned as
  it is; with a configured base URL that has no scheme, a relative input gives a result
  without a scheme; and an input whose scheme \<open>urlparse\<close> reads as \<open>http\<close> only after
  removing a tab is returned with the tab, so that it does not start with \<open>http:\<close>.
\<close>

theorem normalize_music_url_scheme_counterexample:
  "normalize_music_url (example_env [] offline) (lit ''ftp://x/y'') = Inr (lit ''ftp://x/y'') \<and>
   \<not> explicit_http (lit ''ftp://x/y'') \<and>
   normalize_music_url
     ((example_env [] offline)\<lparr>MUSIC_API_BASE_URL := lit ''api.example.com/meting''\<rparr>) (lit ''x'')
     = Inr (lit ''api.example.com/x'') \<and>
   \<not> explicit_http (lit ''api.example.com/x'') \<and>
   normalize_music_url (example_env [] offline) (lit ''ht'' @ [9] @ lit ''tp://x/y'')
     = Inr (lit ''ht'' @ [9] @ lit ''tp://x/y'') \<and>
   \<not> explicit_http (lit ''ht'' @ [9] @ lit ''tp://x/y'')"
  by (simp add: normalize_music_url_def strip_defs lit_simps url_defs Let_def example_env_def
      urljoin_def explicit_http_def is_http_def uses_relative_def uses_netloc_def urlunparse_def
      urlunsplit_def drop_empty_inner_def)

text \<open>
  Claim C5, amended.  Whenever the normaliser returns and the configured base URL has
  the scheme \<open>http\<close> or \<open>https\<close>: if the trimmed input has no scheme, the output is the
  empty string or a URL with an explicit \<open>http\<close> or \<open>https\<close> scheme; if the trimmed input
  has the scheme \<open>http\<close> or \<open>https\<close>, does not start with a control character and
  contains no tab, carriage return or newline, the output has an explicit \<open>http\<close> or
  \<open>https\<close> scheme (in upper or lower case letters); and if the trimmed input has
  another scheme, such as \<open>ftp\<close>, the output is the trimmed input, as it is.
\<close>

theorem normalize_music_url_scheme:
  assumes n: "normalize_music_url e url = Inr out"
    and b: "is_http (url_scheme (MUSIC_API_BASE_URL e))"
  shows
  "(url_scheme (strip url) = [] \<longrightarrow> out = [] \<or> explicit_http out) \<and>
   (is_http (url_scheme (strip url)) \<and> clean_url (strip url) = strip url \<longrightarrow>
      explicit_http out) \<and>
   (url_scheme (strip url) \<noteq> [] \<and> \<not> is_http (url_scheme (strip url)) \<longrightarrow> out = strip url)"
proof (cases "strip url = []")
  case True
  with n have "out = []" by (simp add: normalize_music_url_def Let_def)
  with True show ?thesis
    using url_scheme_empty is_http_nonempty by auto
next
  case False
  with n obtain p where p: "urlparse e (strip url) [] = Inr p"
    by (auto simp: normalize_music_url_def Let_def split: sum.splits)
  then have sp: "pr_scheme p = url_scheme (strip url)" by (rule urlparse_scheme)
  show ?thesis
  proof (cases "is_http (pr_scheme p)")
    case True
    with n False p have "out = strip url"
      by (auto simp: normalize_music_url_def Let_def is_http_def)
    with True sp show ?thesis
      using explicit_http_of_scheme is_http_nonempty by auto
  next
    case nh: False
    show ?thesis
    proof (cases "startswith (strip url) (lit ''//'')")
      case True
      with n False p nh have "out = lit ''https'' @ lit '':'' @ strip url"
        by (auto simp: normalize_music_url_def Let_def is_http_def lit_simps)
      moreover have "is_http (lit ''https'')" by (simp add: is_http_def)
      ultimately have "explicit_http out" using explicit_http_prefix by metis
      with True nh sp show ?thesis using slashes_no_scheme by auto
    next
      case ns: False
      with n False p nh have j: "urljoin e (MUSIC_API_BASE_URL e) (strip url) = Inr out"
        by (auto simp: normalize_music_url_def Let_def is_http_def)
      have 1: "url_scheme (strip url) = [] \<longrightarrow> out = [] \<or> explicit_http out"
      proof
        assume "url_scheme (strip url) = []"
        with b j False obtain rest where
          "out = url_scheme (MUSIC_API_BASE_URL e) @ lit '':'' @ rest"
          using urljoin_scheme by blast
        with b show "out = [] \<or> explicit_http out" using explicit_http_prefix by metis
      qed
      have 3: "url_scheme (strip url) \<noteq> [] \<and> \<not> is_http (url_scheme (strip url)) \<longrightarrow>
          out = strip url"
        using b j urljoin_other_scheme by blast
      from 1 3 nh sp show ?thesis by auto
    qed
  qed
qed

theorem normalize_music_url_scheme_witness:
  "normalize_music_url (example_env [] offline) (lit ''/api?id=1'')
     = Inr (lit ''https://api.i-meto.com/api?id=1'') \<and>
   is_http (url_scheme (MUSIC_API_BASE_URL (example_env [] offline))) \<and>
   url_scheme (strip (lit ''/api?id=1'')) = [] \<and>
   explicit_http (lit ''https://api.i-meto.com/api?id=1'') \<and>
   normalize_music_url (example_env [] offline) (lit '' HTTPS://x/y '')
     = Inr (lit ''HTTPS://x/y'') \<and>
   is_http (url_scheme (strip (lit '' HTTPS://x/y ''))) \<and>
   clean_url (strip (lit '' HTTPS://x/y '')) = strip (lit '' HTTPS://x/y '') \<and>
   explicit_http (lit ''HTTPS://x/y'') \<and>
   normalize_music_url (example_env [] offline) (lit ''mailto:a@b '') = Inr (lit ''mailto:a@b'') \<and>
   url_scheme (strip (lit ''mailto:a@b '')) = lit ''mailto''"
  using normalize_music_url_scheme [of "example_env [] offline" "lit ''/api?id=1''"
      "lit ''https://api.i-meto.com/api?id=1''"]
    normalize_music_url_scheme [of "example_env [] offline" "lit '' HTTPS://x/y ''"
      "lit ''HTTPS://x/y''"]
    normalize_music_url_scheme [of "example_env [] offline" "lit ''mailto:a@b ''"
      "lit ''mailto:a@b''"]
  by (simp add: normalize_music_url_def strip_defs lit_simps url_defs Let_def example_env_def
      is_http_def urljoin_def url_scheme_def explicit_http_def uses_relative_def
      uses_netloc_def urlunparse_def urlunsplit_def drop_empty_inner_def)

section \<open>Properties of the signer\<close>

text \<open>
  Claim C6, as stated, fails: for the type \<open>url\<close> and a configured secret, an id that
  holds a lone surrogate has no UTF-8 encoding, and the signer raises
  \<open>UnicodeEncodeError\<close>: it adds no signature and the failure is not the configuration
  error.  The same happens when the secret itself holds a lone surrogate.
\<close>

theorem build_music_params_signature_counterexample:
  "lit ''url'' \<in> set MUSIC_SIGN_REQUIRED_TYPES \<and>
   MUSIC_API_TOKEN (example_env (lit ''S'') offline) = lit ''S'' \<and>
   build_music_params (example_env (lit ''S'') offline) (lit ''netease'') (lit ''url'') [55296]
     = Inl UnicodeEncodeError \<and>
   build_music_params (example_env [56448] offline) (lit ''netease'') (lit ''url'') (lit ''42'')
     = Inl UnicodeEncodeError"
  by (simp add: build_music_params_def MUSIC_SIGN_REQUIRED_TYPES_def example_env_def lit_simps
      utf8_encode_def scalar_value_def Let_def)

text \<open>
  Claim C6, amended.  The signer builds the parameters \<open>server\<close>, \<open>type\<close>, \<open>id\<close>.  For a
  type outside \<open>{url, lrc, pic}\<close> (in particular \<open>search\<close>) that is the whole result.  For
  a type in the set, a configured secret, and a secret and a concatenation
  \<open>server + type + id\<close> that both have a UTF-8 encoding, the result is these parameters
  with the signature parameter set to the hex HMAC-SHA1 digest, under the encoded
  secret, of the encoded concatenation.  For a type in the set and no secret, the call
  raises \<open>RuntimeError\<close> (the configuration error of the source) and yields no
  parameters.  For a type in the set and a configured secret, when the concatenation or
  the secret has no UTF-8 encoding (it holds a lone surrogate), the call raises
  \<open>UnicodeEncodeError\<close>.  A string of Unicode scalar values always has its encoding.
\<close>

theorem build_music_params_signature:
  "(req_type \<notin> set MUSIC_SIGN_REQUIRED_TYPES \<longrightarrow>
      build_music_params e server req_type req_id =
        Inr [(lit ''server'', server), (lit ''type'', req_type), (lit ''id'', req_id)]) \<and>
   (req_type \<in> set MUSIC_SIGN_REQUIRED_TYPES \<and> MUSIC_API_TOKEN e \<noteq> [] \<and>
    utf8_encode (server @ req_type @ req_id) = Inr payload \<and>
    utf8_encode (MUSIC_API_TOKEN e) = Inr key \<longrightarrow>
      (\<exists>ps. build_music_params e server req_type req_id = Inr ps \<and>
            map_of ps =
              (map_of [(lit ''server'', server), (lit ''type'', req_type), (lit ''id'', req_id)])
                (MUSIC_SIGN_PARAM e \<mapsto> hmac_sha1_hexdigest e key payload))) \<and>
   (req_type \<in> set MUSIC_SIGN_REQUIRED_TYPES \<and> MUSIC_API_TOKEN e = [] \<longrightarrow>
      build_music_params e server req_type req_id = Inl RuntimeError) \<and>
   (req_type \<in> set MUSIC_SIGN_REQUIRED_TYPES \<and> MUSIC_API_TOKEN e \<noteq> [] \<and>
    \<not> (list_all scalar_value (server @ req_type @ req_id) \<and>
       list_all scalar_value (MUSIC_API_TOKEN e)) \<longrightarrow>
      build_music_params e server req_type req_id = Inl UnicodeEncodeError) \<and>
   (list_all scalar_value s \<longrightarrow> utf8_encode s = Inr (concat (map utf8_char s))) \<and>
   set MUSIC_SIGN_REQUIRED_TYPES = {lit ''url'', lit ''lrc'', lit ''pic''} \<and>
   lit ''search'' \<notin> set MUSIC_SIGN_REQUIRED_TYPES"
  by (auto simp: build_music_params_def Let_def update_conv MUSIC_SIGN_REQUIRED_TYPES_def
      lit_simps utf8_encode_def split: if_splits)

theorem build_music_params_signature_witness:
  "build_music_params (example_env (lit ''S'') offline) (lit ''netease'') (lit ''search'')
       (lit ''42'')
     = Inr [(lit ''server'', lit ''netease''), (lit ''type'', lit ''search''),
            (lit ''id'', lit ''42'')] \<and>
   utf8_encode (lit ''neteaseurl42'') = Inr (lit ''neteaseurl42'') \<and>
   utf8_encode (lit ''S'') = Inr (lit ''S'') \<and>
   (\<exists>ps. build_music_params (example_env (lit ''S'') offline) (lit ''netease'') (lit ''url'')
            (lit ''42'') = Inr ps \<and>
      map_of ps (lit ''auth'') =
        Some (hmac_sha1_hexdigest (example_env (lit ''S'') offline) (lit ''S'')
                (lit ''neteaseurl42''))) \<and>
   build_music_params (example_env [] offline) (lit ''netease'') (lit ''url'') (lit ''42'')
     = Inl RuntimeError \<and>
   build_music_params (example_env (lit ''S'') offline) (lit ''netease'') (lit ''url'') [55296]
     = Inl UnicodeEncodeError"
  using build_music_params_signature [where req_type = "lit ''search''"
          and e = "example_env (lit ''S'') offline" and server = "lit ''netease''"
          and req_id = "lit ''42''"]
        build_music_params_signature [where req_type = "lit ''url''"
          and e = "example_env (lit ''S'') offline" and server = "lit ''netease''"
          and req_id = "lit ''42''" and payload = "lit ''neteaseurl42''" and key = "lit ''S''"]
        build_music_params_signature [where req_type = "lit ''url''"
          and e = "example_env [] offline" and server = "lit ''netease''"
          and req_id = "lit ''42''"]
        build_music_params_signature [where req_type = "lit ''url''"
          and e = "example_env (lit ''S'') offline" and server = "lit ''netease''"
          and req_id = "[55296]"]
  by (auto simp: example_env_def lit_simps utf8_encode_def scalar_value_def utf8_char_def)

section \<open>Properties of the resolution cache\<close>

lemma cache_get_total: "cache_get k c = Inr (c k)"
  by (auto simp: cache_get_def dict_index_def dom_def split: option.splits)

text \<open>The loop of the search stores the new entries one after the other.\<close>

lemma search_items_stores:
  "search_items e items res c = (Inr results, c') \<Longrightarrow>
     \<exists>new. results = res @ new \<and> c' = foldl (\<lambda>c en. cache_store (py_str e) en c) c new"
proof (induction items arbitrary: res c)
  case Nil
  then show ?case by (intro exI [of _ "[]"]) simp
next
  case (Cons item items)
  from Cons.prems obtain en where
    r: "search_items e items (res @ [en]) (cache_store (py_str e) en c) = (Inr results, c')"
    by (auto simp: Let_def split: json.splits sum.splits)
  from Cons.IH [OF r] obtain new where
    "results = (res @ [en]) @ new"
    "c' = foldl (\<lambda>c en. cache_store (py_str e) en c) (cache_store (py_str e) en c) new"
    by blast
  then show ?case by (intro exI [of _ "en # new"]) simp
qed

lemma search_api_stores:
  assumes a: "search_api e q limit st = (results, st')" and ne: "results \<noteq> []"
  shows "search_result_cache st'
           = foldl (\<lambda>c en. cache_store (py_str e) en c) (search_result_cache st) results"
proof -
  from a ne obtain items ps resp c' where
    i: "search_items e (slice_to limit items) [] (search_result_cache st) = (Inr results, c')"
    and s: "search_result_cache st' = c'"
    by (auto simp: search_api_def http_def Let_def
        split: sum.splits if_splits json.splits prod.splits)
  from search_items_stores [OF i] s show ?thesis by auto
qed

lemma foldl_store_other:
  "list_all (\<lambda>x. f (se_id x) \<noteq> k) new \<Longrightarrow>
     foldl (\<lambda>c en. cache_store f en c) c new k = c k"
  by (induction new arbitrary: c) (auto simp: cache_store_def cache_put_def Let_def)

lemma foldl_store_last:
  assumes "f (se_id en) = k" and "k \<noteq> []" and "list_all (\<lambda>x. f (se_id x) \<noteq> k) post"
  shows "foldl (\<lambda>c en. cache_store f en c) c (pre @ en # post) k = Some en"
  using assms by (simp add: foldl_store_other) (simp add: cache_store_def cache_put_def)

text \<open>
  Claim C9.  The put of the program is the store of a search result under the string of
  its id, done by the search for each result in turn (an entry whose id string is empty
  is not stored); the get is the guarded lookup of the resolution.  After a search, a
  get of the id of a result returns that result, and when several results have the
  same id, the latest one; a get of an id that no result has returns what it returned
  before the search, "not found" when the id was not in the cache; and a get never
  raises.  The same holds of a single store and of two stores under one id.
\<close>

theorem cache_put_then_get:
  assumes a: "search_api e q limit st = (results, st')"
  shows
  "(results = pre @ en # post \<and> py_str e (se_id en) = k \<and> k \<noteq> [] \<and>
    list_all (\<lambda>x. py_str e (se_id x) \<noteq> k) post \<longrightarrow>
      cache_get k (search_result_cache st') = Inr (Some en) \<and>
      effective_lrc [] (Some k) (search_result_cache st') = Inr (se_lrc en)) \<and>
   (results \<noteq> [] \<and> list_all (\<lambda>x. py_str e (se_id x) \<noteq> k) results \<longrightarrow>
      cache_get k (search_result_cache st') = cache_get k (search_result_cache st)) \<and>
   (results \<noteq> [] \<and> list_all (\<lambda>x. py_str e (se_id x) \<noteq> k) results \<and>
    search_result_cache st k = None \<longrightarrow>
      cache_get k (search_result_cache st') = Inr None) \<and>
   cache_get k (search_result_cache st') = Inr (search_result_cache st' k) \<and>
   (f (se_id r) = k \<and> k \<noteq> [] \<longrightarrow> cache_get k (cache_store f r c) = Inr (Some r)) \<and>
   (f (se_id r1) = k \<and> f (se_id r2) = k \<and> k \<noteq> [] \<longrightarrow>
      cache_store f r2 (cache_store f r1 c) = cache_store f r2 c)"
proof -
  have 1: "cache_get k (search_result_cache st') = Inr (Some en) \<and>
      effective_lrc [] (Some k) (search_result_cache st') = Inr (se_lrc en)"
    if "results = pre @ en # post" "py_str e (se_id en) = k" "k \<noteq> []"
      "list_all (\<lambda>x. py_str e (se_id x) \<noteq> k) post"
  proof -
    from that have "results \<noteq> []" by simp
    with a have "search_result_cache st'
           = foldl (\<lambda>c en. cache_store (py_str e) en c) (search_result_cache st) results"
      by (rule search_api_stores)
    with that have "search_result_cache st' k = Some en"
      using foldl_store_last [of "py_str e" en k post "search_result_cache st" pre] by simp
    with that show ?thesis
      by (simp add: cache_get_total effective_lrc_def truthy_id_def id_text_def)
  qed
  have 2: "cache_get k (search_result_cache st') = cache_get k (search_result_cache st)"
    if "results \<noteq> []" "list_all (\<lambda>x. py_str e (se_id x) \<noteq> k) results"
    using that search_api_stores [OF a] foldl_store_other [of "py_str e" k results]
    by (simp add: cache_get_total)
  have 5: "f (se_id r) = k \<and> k \<noteq> [] \<longrightarrow> cache_get k (cache_store f r c) = Inr (Some r)"
    by (simp add: cache_get_total cache_store_def cache_put_def)
  have 6: "f (se_id r1) = k \<and> f (se_id r2) = k \<and> k \<noteq> [] \<longrightarrow>
      cache_store f r2 (cache_store f r1 c) = cache_store f r2 c"
    by (simp add: cache_store_def cache_put_def)
  from 1 2 5 6 show ?thesis by (simp add: cache_get_total)
qed

lemma example_search:
  "search_api (example_env [] (answering (example_response 200 None [] (Inr example_hits))))
     (lit ''q'') 10 initial_state =
   ([example_hit_a, example_hit_b],
    initial_state
      \<lparr>sent := [api_get (example_env [] (answering (example_response 200 None []
                   (Inr example_hits))))
                 True [(lit ''server'', lit ''netease''), (lit ''type'', lit ''search''),
                       (lit ''id'', lit ''q'')]],
       search_result_cache := [lit ''7'' \<mapsto> example_hit_b]\<rparr>)"
  by (simp add: search_api_def http_def api_get_def build_music_params_def
      MUSIC_SIGN_REQUIRED_TYPES_def example_env_def answering_def example_response_def
      example_hits_def example_hit_a_def example_hit_b_def initial_state_def slice_to_def
      dict_get_def normalize_music_url_def strip_defs lit_simps url_defs Let_def
      cache_store_def cache_put_def)

theorem cache_put_then_get_witness:
  "fst (search_api (example_env [] (answering (example_response 200 None [] (Inr example_hits))))
          (lit ''q'') 10 initial_state) = [example_hit_a] @ example_hit_b # [] \<and>
   py_str (example_env [] (answering (example_response 200 None [] (Inr example_hits))))
     (se_id example_hit_b) = lit ''7'' \<and>
   cache_get (lit ''7'')
     (search_result_cache
        (snd (search_api
                (example_env [] (answering (example_response 200 None [] (Inr example_hits))))
                (lit ''q'') 10 initial_state))) = Inr (Some example_hit_b) \<and>
   effective_lrc [] (Some (lit ''7''))
     (search_result_cache
        (snd (search_api
                (example_env [] (answering (example_response 200 None [] (Inr example_hits))))
                (lit ''q'') 10 initial_state))) = Inr (lit ''http://l/2.lrc'')"
  using cache_put_then_get [OF example_search, where pre = "[example_hit_a]"
        and en = example_hit_b and post = "[]" and k = "lit ''7''"
        and f = "py_str (example_env [] offline)" and r = example_hit_b and c = Map.empty
        and ?r1.0 = example_hit_a and ?r2.0 = example_hit_b]
  unfolding example_search
  by (simp add: example_hit_b_def lit_simps cache_get_total effective_lrc_def truthy_id_def
      id_text_def)

section \<open>Properties of the upstream client\<close>

lemma strip_empty: "strip [] = []"
  by (simp add: strip_def lstrip_def rstrip_def)

text \<open>
  Claim C7.  When the play-URL lookup is sent (its parameters can be signed) and the
  network answers with a response: a status 301, 302, 303, 307 or 308 with a Location
  header gives the trimmed header value, and without one the empty string; a status 200
  gives the trimmed body when the body is a JSON string, the trimmed first element when
  it is a list that starts with a string, and the trimmed string form of the \<open>url\<close> field
  of the first element when it is a list that starts with an object having that field;
  any other status gives the empty string.
\<close>

theorem fetch_song_url_response:
  assumes ps: "build_music_params e (lit ''netease'') (lit ''url'') song_id = Inr ps"
    and net: "network e (sent st @ [api_get e False ps]) = Inr resp"
  shows
  "(status_code resp \<in> {301, 302, 303, 307, 308} \<and> location resp = Some l \<longrightarrow>
      fst (fetch_song_url e song_id st) = strip l) \<and>
   (status_code resp \<in> {301, 302, 303, 307, 308} \<and> location resp = None \<longrightarrow>
      fst (fetch_song_url e song_id st) = []) \<and>
   (status_code resp = 200 \<and> json_body resp = Inr (JStr s) \<longrightarrow>
      fst (fetch_song_url e song_id st) = strip s) \<and>
   (status_code resp = 200 \<and> json_body resp = Inr (JList (JStr s # rest)) \<longrightarrow>
      fst (fetch_song_url e song_id st) = strip s) \<and>
   (status_code resp = 200 \<and> json_body resp = Inr (JList (JDict d # rest)) \<and>
    map_of d (lit ''url'') = Some v \<longrightarrow>
      fst (fetch_song_url e song_id st) = strip (py_str e v)) \<and>
   (status_code resp \<notin> {200, 301, 302, 303, 307, 308} \<longrightarrow>
      fst (fetch_song_url e song_id st) = [])"
  using ps net
  by (auto simp: fetch_song_url_def http_def Let_def dict_get_def strip_empty)

theorem fetch_song_url_response_witness:
  "fst (fetch_song_url
         (example_env (lit ''S'')
            (answering (example_response 302 (Some (lit '' https://cdn.example/x.mp3 '')) []
                          (Inl JSONDecodeError))))
         (lit ''42'') initial_state) = lit ''https://cdn.example/x.mp3'' \<and>
   fst (fetch_song_url
         (example_env (lit ''S'')
            (answering (example_response 200 None []
                          (Inr (JList [JDict [(lit ''url'', JStr (lit ''http://a/b.mp3 ''))]])))))
         (lit ''42'') initial_state) = lit ''http://a/b.mp3'' \<and>
   fst (fetch_song_url
         (example_env (lit ''S'') (answering (example_response 404 None [] (Inl JSONDecodeError))))
         (lit ''42'') initial_state) = []"
  using
    fetch_song_url_response [where e = "example_env (lit ''S'')
            (answering (example_response 302 (Some (lit '' https://cdn.example/x.mp3 '')) []
                          (Inl JSONDecodeError)))" and song_id = "lit ''42''"
        and st = initial_state and l = "lit '' https://cdn.example/x.mp3 ''"]
    fetch_song_url_response [where e = "example_env (lit ''S'')
            (answering (example_response 200 None []
                          (Inr (JList [JDict [(lit ''url'', JStr (lit ''http://a/b.mp3 ''))]]))))"
        and song_id = "lit ''42''" and st = initial_state
        and d = "[(lit ''url'', JStr (lit ''http://a/b.mp3 ''))]" and rest = "[]"
        and v = "JStr (lit ''http://a/b.mp3 '')"]
    fetch_song_url_response [where e = "example_env (lit ''S'')
            (answering (example_response 404 None [] (Inl JSONDecodeError)))"
        and song_id = "lit ''42''" and st = initial_state]
  by (simp add: example_env_def answering_def example_response_def build_music_params_def
      MUSIC_SIGN_REQUIRED_TYPES_def lit_simps Let_def strip_defs utf8_encode_def
      scalar_value_def utf8_char_def)

lemma fetch_lyric_other:
  "\<not> lyric_shape v \<Longrightarrow>
   (case v of JStr s \<Rightarrow> (strip s, st1)
        | JList (JStr s # rest) \<Rightarrow> (strip s, st1)
        | JList (JDict d # rest) \<Rightarrow> (strip (lyric_or_lrc e d), st1)
        | JDict d \<Rightarrow> (strip (lyric_or_lrc e d), st1)
        | other \<Rightarrow> (raw_text, st1)) = (raw_text, st1)"
  by (cases v rule: lyric_shape.cases) simp_all

text \<open>
  Claim C8, as stated, fails: a body that is valid JSON for an object with neither a
  \<open>lyric\<close> nor an \<open>lrc\<close> field, here \<open>{}\<close>, gives the empty string and not the raw body.
\<close>

theorem fetch_song_lyric_body_counterexample:
  "loads_example (strip (lit ''{}'')) = Inr (JDict []) \<and>
   strip (lit ''{}'') = lit ''{}'' \<and>
   fst (fetch_song_lyric
         ((example_env (lit ''S'') (answering (example_response 200 None (lit ''{}'')
              (Inr (JDict [])))))\<lparr>json_loads := loads_example\<rparr>)
         (lit ''42'') initial_state) = []"
  by (simp add: fetch_song_lyric_def http_def example_env_def answering_def
      example_response_def build_music_params_def MUSIC_SIGN_REQUIRED_TYPES_def lit_simps
      Let_def strip_defs loads_example_def lyric_or_lrc_def dict_get_def api_get_def
      utf8_encode_def scalar_value_def utf8_char_def)

text \<open>
  Claim C8, amended.  When the lyric lookup is sent and answered with status 200 and a
  body that is not blank: if the trimmed body is not valid JSON, it is returned as it is;
  if it parses to a string, or to a list that starts with a string, that string is
  returned trimmed; if it parses to an object, or to a list that starts with an object,
  the result is the trimmed string form of the object's \<open>lyric\<close> field when that is
  true, else of its \<open>lrc\<close> field when that is true, else the empty string; every other
  JSON value gives the raw trimmed body.
\<close>

theorem fetch_song_lyric_body:
  assumes ps: "build_music_params e (lit ''netease'') (lit ''lrc'') song_id = Inr ps"
    and net: "network e (sent st @ [api_get e True ps]) = Inr resp"
    and ok: "status_code resp = 200"
    and raw: "strip (resp_text resp) \<noteq> []"
  shows
  "(json_loads e (strip (resp_text resp)) = Inl JSONDecodeError \<or>
    json_loads e (strip (resp_text resp)) = Inl ValueError \<longrightarrow>
      fst (fetch_song_lyric e song_id st) = strip (resp_text resp)) \<and>
   (json_loads e (strip (resp_text resp)) = Inr (JStr s) \<longrightarrow>
      fst (fetch_song_lyric e song_id st) = strip s) \<and>
   (json_loads e (strip (resp_text resp)) = Inr (JList (JStr s # rest)) \<longrightarrow>
      fst (fetch_song_lyric e song_id st) = strip s) \<and>
   (json_loads e (strip (resp_text resp)) = Inr (JList (JDict d # rest)) \<or>
    json_loads e (strip (resp_text resp)) = Inr (JDict d) \<longrightarrow>
      fst (fetch_song_lyric e song_id st) =
        strip (if truthy e (dict_get d (lit ''lyric'') JNull)
               then py_str e (dict_get d (lit ''lyric'') JNull)
               else if truthy e (dict_get d (lit ''lrc'') JNull)
               then py_str e (dict_get d (lit ''lrc'') JNull)
               else [])) \<and>
   (json_loads e (strip (resp_text resp)) = Inr v \<and> \<not> lyric_shape v \<longrightarrow>
      fst (fetch_song_lyric e song_id st) = strip (resp_text resp))"
  using ps net ok raw
  by (auto simp: fetch_song_lyric_def http_def Let_def lyric_or_lrc_def fetch_lyric_other)

theorem fetch_song_lyric_body_witness:
  "fst (fetch_song_lyric
         ((example_env (lit ''S'') (answering (example_response 200 None
              (lit '' [00:01.00]la '') (Inl JSONDecodeError))))\<lparr>json_loads := loads_example\<rparr>)
         (lit ''42'') initial_state) = lit ''[00:01.00]la'' \<and>
   fst (fetch_song_lyric
         ((example_env (lit ''S'') (answering (example_response 200 None
              [34, 108, 97, 34] (Inr (JStr (lit ''la''))))))\<lparr>json_loads := loads_example\<rparr>)
         (lit ''42'') initial_state) = lit ''la''"
  using
    fetch_song_lyric_body [where e = "(example_env (lit ''S'') (answering (example_response 200
              None (lit '' [00:01.00]la '') (Inl JSONDecodeError))))\<lparr>json_loads := loads_example\<rparr>"
        and song_id = "lit ''42''" and st = initial_state]
    fetch_song_lyric_body [where e = "(example_env (lit ''S'') (answering (example_response 200
              None [34, 108, 97, 34] (Inr (JStr (lit ''la'')))))) \<lparr>json_loads := loads_example\<rparr>"
        and song_id = "lit ''42''" and st = initial_state and s = "lit ''la''"]
  by (simp add: example_env_def answering_def example_response_def build_music_params_def
      MUSIC_SIGN_REQUIRED_TYPES_def lit_simps Let_def strip_defs loads_example_def
      utf8_encode_def scalar_value_def utf8_char_def)

section \<open>Properties of the redirect resolver\<close>

text \<open>The three tiers, for an input that the normaliser accepts: a HEAD answered with
  200 or 206 decides, and then no GET is sent; otherwise a streamed GET answered with
  200 decides; otherwise the normalised URL is returned.  No exception leaves the
  function in these cases.\<close>

lemma resolve_final_url_tiers:
  assumes n: "normalize_music_url e url = Inr n" and ne: "n \<noteq> []"
  shows
  "(network e (sent st @ [head_request n]) = Inr resp \<and>
    (status_code resp = 200 \<or> status_code resp = 206) \<longrightarrow>
      resolve_final_url e url st =
        (Inr (final_url resp), st\<lparr>sent := sent st @ [head_request n]\<rparr>)) \<and>
   (\<not> (\<exists>r. network e (sent st @ [head_request n]) = Inr r \<and>
           (status_code r = 200 \<or> status_code r = 206)) \<and>
    network e (sent st @ [head_request n, stream_request n]) = Inr resp \<and>
    status_code resp = 200 \<longrightarrow>
      resolve_final_url e url st =
        (Inr (final_url resp), st\<lparr>sent := sent st @ [head_request n, stream_request n]\<rparr>)) \<and>
   (\<not> (\<exists>r. network e (sent st @ [head_request n]) = Inr r \<and>
           (status_code r = 200 \<or> status_code r = 206)) \<and>
    \<not> (\<exists>r. network e (sent st @ [head_request n, stream_request n]) = Inr r \<and>
           status_code r = 200) \<longrightarrow>
      resolve_final_url e url st =
        (Inr n, st\<lparr>sent := sent st @ [head_request n, stream_request n]\<rparr>))"
  using n ne
  by (auto simp: resolve_final_url_def http_def Let_def split: sum.splits)

text \<open>
  Claim C1.  The claim says that the resolver never fails with an error.  On the input
  \<open>http://[\<close> the normaliser, which is called before the first \<open>try\<close>, raises
  \<open>ValueError\<close> (an opening bracket without a closing one in the host), and the
  resolver lets it through without sending a request.
\<close>

theorem resolve_final_url_malformed_input:
  "resolve_final_url (example_env [] offline) (lit ''http://['') initial_state
     = (Inl ValueError, initial_state)"
  by (simp add: resolve_final_url_def normalize_music_url_def strip_defs lit_simps url_defs
      Let_def)

section \<open>Properties of the orchestrator\<close>

lemma fetch_song_lyric_no_token:
  "MUSIC_API_TOKEN e = [] \<Longrightarrow> fetch_song_lyric e sid st = ([], st)"
  by (simp add: fetch_song_lyric_def build_music_params_def MUSIC_SIGN_REQUIRED_TYPES_def Let_def)

lemma build_music_params_runtime_error:
  "build_music_params e server t i = Inl RuntimeError \<Longrightarrow> MUSIC_API_TOKEN e = []"
  by (auto simp: build_music_params_def Let_def utf8_encode_def split: if_splits sum.splits)

lemma build_lyric_url_empty:
  "build_lyric_url e sid lrc = Inr [] \<Longrightarrow> truthy_id sid \<Longrightarrow> MUSIC_API_TOKEN e = []"
  by (auto simp: build_lyric_url_def truthy_id_def lit_simps
      split: option.splits sum.splits exn.splits if_splits
      dest: build_music_params_runtime_error)

lemma truthy_id_text: "truthy_id x \<longleftrightarrow> id_text x \<noteq> []"
  by (simp add: truthy_id_def id_text_def split: option.splits)

lemma frame_fetch_song_url:
  "fetch_song_url e sid st = (u, st') \<Longrightarrow>
     \<exists>new. st' = st\<lparr>sent := sent st @ new\<rparr> \<and> list_all (\<lambda>q. \<not> followed_get q) new"
proof (cases "build_music_params e (lit ''netease'') (lit ''url'') sid")
  case (Inl x)
  assume "fetch_song_url e sid st = (u, st')"
  with Inl have "st' = st\<lparr>sent := sent st @ []\<rparr>" by (simp add: fetch_song_url_def)
  then show ?thesis by (intro exI [of _ "[]"]) simp
next
  case (Inr ps)
  assume "fetch_song_url e sid st = (u, st')"
  with Inr have "st' = st\<lparr>sent := sent st @ [api_get e False ps]\<rparr>"
    by (auto simp: fetch_song_url_def http_def Let_def
        split: sum.splits if_splits json.splits list.splits option.splits)
  then show ?thesis
    by (intro exI [of _ "[api_get e False ps]"]) (simp add: followed_get_def api_get_def)
qed

lemma frame_resolve_final_url:
  "resolve_final_url e url st = (r, st') \<Longrightarrow>
     \<exists>new. st' = st\<lparr>sent := sent st @ new\<rparr> \<and> list_all (\<lambda>q. \<not> followed_get q) new"
proof -
  assume a: "resolve_final_url e url st = (r, st')"
  then consider "st' = st\<lparr>sent := sent st @ []\<rparr>"
    | n where "st' = st\<lparr>sent := sent st @ [head_request n]\<rparr>"
    | n where "st' = st\<lparr>sent := sent st @ [head_request n, stream_request n]\<rparr>"
    by (auto simp: resolve_final_url_def http_def Let_def
        split: sum.splits if_splits option.splits)
  then show ?thesis
  proof cases
    case 1
    then show ?thesis by (intro exI [of _ "[]"]) simp
  next
    case (2 n)
    then show ?thesis
      by (intro exI [of _ "[head_request n]"]) (simp add: followed_get_def head_request_def)
  next
    case (3 n)
    then show ?thesis
      by (intro exI [of _ "[head_request n, stream_request n]"])
         (simp add: followed_get_def head_request_def stream_request_def)
  qed
qed

lemma report_progress_simps [simp]:
  "sent (report_progress ctx n st) = sent st"
  "progress (report_progress ctx n st) = (if ctx then progress st @ [n] else progress st)"
  "search_result_cache (report_progress ctx n st) = search_result_cache st"
  "playing_song (report_progress ctx n st) = playing_song st"
  "is_playing (report_progress ctx n st) = is_playing st"
  by (simp_all add: report_progress_def)

lemma effective_lrc_total:
  "effective_lrc lrc rs c =
     Inr (if lrc = [] \<and> truthy_id rs
          then (case c (id_text rs) of None \<Rightarrow> lrc | Some cached \<Rightarrow> se_lrc cached)
          else lrc)"
  by (auto simp: effective_lrc_def cache_get_total truthy_id_text Let_def split: option.splits)

text \<open>When the lyric reference returns, the lyric text is empty: the text is fetched
  only when no secret is configured, and then the fetch cannot sign its request.\<close>

lemma lyric_reference_frame:
  assumes a: "lyric_reference e rs lrc ctx s3 = (Inr (lv, lt), s4)"
  shows "lt = [] \<and> s4 = (if lv = [] \<and> truthy_id rs then report_progress ctx 70 s3 else s3) \<and>
     (\<exists>eff. effective_lrc lrc rs (search_result_cache s3) = Inr eff \<and>
            build_lyric_url e rs eff = Inr lv)"
proof -
  obtain eff where E: "effective_lrc lrc rs (search_result_cache s3) = Inr eff"
    by (simp add: effective_lrc_total)
  with a obtain lv' where L: "build_lyric_url e rs eff = Inr lv'"
    by (cases "build_lyric_url e rs eff") (auto simp: lyric_reference_def)
  have T: "fetch_song_lyric e (id_text rs) s = ([], s)" if "lv' = []" "truthy_id rs" for s
    using that L build_lyric_url_empty fetch_song_lyric_no_token by blast
  show ?thesis
  proof (cases "lv' = [] \<and> truthy_id rs")
    case True
    with a E L T show ?thesis by (auto simp: lyric_reference_def)
  next
    case False
    with a E L show ?thesis by (auto simp: lyric_reference_def)
  qed
qed

lemma resolve_from_source_result:
  assumes a: "resolve_from_source e rs name_arg artist_arg lrc ctx su st2 = (Inr (Json r), st')"
  shows "song_name r = name_arg \<and> artist r = artist_arg \<and>
     next_tool r = lit ''self.music.play_url'' \<and>
     (\<exists>s3 s4. search_result_cache s3 = search_result_cache st2 \<and>
              lyric_reference e rs lrc ctx s3 = (Inr (lyric_url r, []), s4)) \<and>
     next_arguments r =
       [(lit ''url'', result_final_url r), (lit ''title'', name_arg), (lit ''artist'', artist_arg)] @
       (if lyric_url r \<noteq> [] then [(lit ''lyric_url'', lyric_url r)] else []) \<and>
     has_lyric r = (lyric_url r \<noteq> []) \<and>
     (\<exists>new. sent st' = sent st2 @ new \<and> list_all (\<lambda>q. \<not> followed_get q) new) \<and>
     progress st' = progress st2 @
       (if ctx then 55 # (if lyric_url r = [] \<and> truthy_id rs then [70] else []) @ [80, 100]
        else []) \<and>
     search_result_cache st' = search_result_cache st2 \<and>
     is_playing st' = False \<and>
     playing_song st' =
       Some \<lparr>cs_id = (if truthy_id rs then id_text rs else su), cs_name = name_arg,
             cs_artist = artist_arg, cs_url = result_final_url r, cs_source_url = su,
             cs_lyric_url = lyric_url r\<rparr>"
proof -
  obtain fin st3 where R: "resolve_final_url e su (report_progress ctx 55 st2) = (fin, st3)"
    by fastforce
  from frame_resolve_final_url [OF R] obtain new where
    st3: "st3 = (report_progress ctx 55 st2)\<lparr>sent := sent st2 @ new\<rparr>"
    and nl: "list_all (\<lambda>q. \<not> followed_get q) new" by auto
  from a R obtain final where fin: "fin = Inr final"
    by (cases fin) (auto simp: resolve_from_source_def Let_def)
  obtain lr st4 where Q: "lyric_reference e rs lrc ctx st3 = (lr, st4)" by fastforce
  with a R fin obtain lv lt where lr: "lr = Inr (lv, lt)"
    by (cases lr) (auto simp: resolve_from_source_def Let_def)
  from lyric_reference_frame [OF Q [unfolded lr]] have
    lt: "lt = []" and
    s4: "st4 = (if lv = [] \<and> truthy_id rs then report_progress ctx 70 st3 else st3)"
    by auto
  have c3: "search_result_cache st3 = search_result_cache st2" by (simp add: st3)
  have k: "lit ''lyric_url'' \<noteq> lit ''url''" "lit ''lyric_url'' \<noteq> lit ''title''"
    "lit ''lyric_url'' \<noteq> lit ''artist''" by (simp_all add: lit_simps)
  from a R fin Q lr lt have
    r: "r = \<lparr>song_name = name_arg, artist = artist_arg, result_final_url = final,
             lyric_url = lv, has_lyric = (lv \<noteq> []),
             next_tool = lit ''self.music.play_url'',
             next_arguments =
               (if lv \<noteq> []
                then AList.update (lit ''lyric_url'') lv
                       [(lit ''url'', final), (lit ''title'', name_arg),
                        (lit ''artist'', artist_arg)]
                else [(lit ''url'', final), (lit ''title'', name_arg),
                      (lit ''artist'', artist_arg)])\<rparr>"
    and s': "st' = report_progress ctx 100
               ((report_progress ctx 80 st4)
                  \<lparr>playing_song :=
                     Some \<lparr>cs_id = (if truthy_id rs then id_text rs else su),
                           cs_name = name_arg, cs_artist = artist_arg, cs_url = final,
                           cs_source_url = su, cs_lyric_url = lv\<rparr>,
                   is_playing := False\<rparr>)"
    by (auto simp: resolve_from_source_def Let_def)
  have link: "\<exists>s3 s4. search_result_cache s3 = search_result_cache st2 \<and>
              lyric_reference e rs lrc ctx s3 = (Inr (lyric_url r, []), s4)"
    using Q lr lt c3 r by (intro exI [of _ st3] exI [of _ st4]) simp
  have snt: "\<exists>new. sent st' = sent st2 @ new \<and> list_all (\<lambda>q. \<not> followed_get q) new"
    using nl by (intro exI [of _ new]) (simp add: s' s4 st3)
  from r s' s4 k link snt show ?thesis by (simp add: st3)
qed

lemma resolve_music_url_result:
  assumes a: "resolve_music_url e id_arg song_id name_arg artist_arg url lrc lyric ctx st
                = (Inr (Json r), st')"
  shows "\<exists>su st2 new.
     resolve_from_source e (id_or song_id id_arg) name_arg artist_arg lrc ctx su st2
       = (Inr (Json r), st') \<and>
     search_result_cache st2 = search_result_cache st \<and>
     sent st2 = sent st @ new \<and> list_all (\<lambda>q. \<not> followed_get q) new \<and>
     (\<exists>pre. progress st2 = progress st @ pre \<and> 70 \<notin> set pre)"
proof -
  let ?rs = "id_or song_id id_arg"
  let ?st1 = "report_progress ctx 10 st"
  from a have v: "\<not> (\<not> truthy_id ?rs \<and> url = [])"
    by (auto simp: resolve_music_url_def Let_def)
  with a obtain s0 where n: "normalize_music_url e url = Inr s0"
    by (cases "normalize_music_url e url") (auto simp: resolve_music_url_def Let_def)
  show ?thesis
  proof (cases "s0 = [] \<and> truthy_id ?rs")
    case True
    obtain su st2 where f:
      "fetch_song_url e (id_text ?rs) (report_progress ctx 25 ?st1) = (su, st2)" by fastforce
    from frame_fetch_song_url [OF f] obtain new where
      st2: "st2 = (report_progress ctx 25 ?st1)\<lparr>sent := sent st @ new\<rparr>"
      and nl: "list_all (\<lambda>q. \<not> followed_get q) new" by auto
    from a v n True f have
      "resolve_from_source e ?rs name_arg artist_arg lrc ctx su st2 = (Inr (Json r), st')"
      by (auto simp: resolve_music_url_def Let_def split: if_splits)
    with nl show ?thesis
      by (intro exI [of _ su] exI [of _ st2] exI [of _ new]) (auto simp: st2)
  next
    case False
    with a v n have
      "resolve_from_source e ?rs name_arg artist_arg lrc ctx s0 ?st1 = (Inr (Json r), st')"
      by (auto simp: resolve_music_url_def Let_def split: if_splits)
    then show ?thesis
      by (intro exI [of _ s0] exI [of _ ?st1] exI [of _ "[]"]) auto
  qed
qed

lemma build_lyric_url_explicit:
  "strip l \<noteq> [] \<Longrightarrow> build_lyric_url e rs l = Inr (strip l)"
  by (auto simp: build_lyric_url_def strip_empty)

lemma build_lyric_url_signed:
  "strip l = [] \<Longrightarrow> truthy_id rs \<Longrightarrow>
   build_music_params e (lit ''netease'') (lit ''lrc'') (id_text rs) = Inr ps \<Longrightarrow>
   urlencode ps = Inr q \<Longrightarrow>
   build_lyric_url e rs l = Inr (MUSIC_API_BASE_URL e @ lit ''?'' @ q)"
  by (auto simp: build_lyric_url_def truthy_id_def id_text_def split: option.splits)

lemma build_lyric_url_unsigned:
  "strip l = [] \<Longrightarrow> truthy_id rs \<Longrightarrow>
   build_music_params e (lit ''netease'') (lit ''lrc'') (id_text rs) = Inl RuntimeError \<Longrightarrow>
   build_lyric_url e rs l = Inr []"
  by (auto simp: build_lyric_url_def truthy_id_def id_text_def split: option.splits)

lemma build_lyric_url_no_id:
  "strip l = [] \<Longrightarrow> \<not> truthy_id rs \<Longrightarrow> build_lyric_url e rs l = Inr []"
  by (auto simp: build_lyric_url_def truthy_id_def split: option.splits)

lemma resolve_music_url_ignores_lyric:
  "resolve_music_url e id_arg song_id name_arg artist_arg url lrc lyric ctx st =
   resolve_music_url e id_arg song_id name_arg artist_arg url lrc [] ctx st"
  by (simp add: resolve_music_url_def)

text \<open>The order of the lyric sources, at any state.\<close>

lemma lyric_reference_order:
  "(strip lrc \<noteq> [] \<longrightarrow> lyric_reference e rs lrc ctx s = (Inr (strip lrc, []), s)) \<and>
   (lrc = [] \<and> truthy_id rs \<and> search_result_cache s (id_text rs) = Some c \<and>
    strip (se_lrc c) \<noteq> [] \<longrightarrow>
      lyric_reference e rs lrc ctx s = (Inr (strip (se_lrc c), []), s)) \<and>
   (lrc = [] \<and> truthy_id rs \<and>
    (case search_result_cache s (id_text rs) of None \<Rightarrow> True
     | Some cached \<Rightarrow> strip (se_lrc cached) = []) \<and>
    build_music_params e (lit ''netease'') (lit ''lrc'') (id_text rs) = Inr ps \<and>
    urlencode ps = Inr q \<longrightarrow>
      lyric_reference e rs lrc ctx s = (Inr (MUSIC_API_BASE_URL e @ lit ''?'' @ q, []), s)) \<and>
   (lrc = [] \<and> truthy_id rs \<and>
    (case search_result_cache s (id_text rs) of None \<Rightarrow> True
     | Some cached \<Rightarrow> strip (se_lrc cached) = []) \<and>
    build_music_params e (lit ''netease'') (lit ''lrc'') (id_text rs) = Inl RuntimeError \<longrightarrow>
      lyric_reference e rs lrc ctx s =
        (Inr ([], fst (fetch_song_lyric e (id_text rs) (report_progress ctx 70 s))),
         snd (fetch_song_lyric e (id_text rs) (report_progress ctx 70 s)))) \<and>
   (lrc = [] \<and> \<not> truthy_id rs \<longrightarrow> lyric_reference e rs lrc ctx s = (Inr ([], []), s))"
proof -
  have 1: "strip lrc \<noteq> [] \<longrightarrow> lyric_reference e rs lrc ctx s = (Inr (strip lrc, []), s)"
    by (auto simp: lyric_reference_def effective_lrc_total strip_empty build_lyric_url_explicit)
  have 2: "lrc = [] \<and> truthy_id rs \<and> search_result_cache s (id_text rs) = Some c \<and>
      strip (se_lrc c) \<noteq> [] \<longrightarrow>
      lyric_reference e rs lrc ctx s = (Inr (strip (se_lrc c), []), s)"
    by (auto simp: lyric_reference_def effective_lrc_total build_lyric_url_explicit)
  have 3: "lrc = [] \<and> truthy_id rs \<and>
      (case search_result_cache s (id_text rs) of None \<Rightarrow> True
       | Some cached \<Rightarrow> strip (se_lrc cached) = []) \<and>
      build_music_params e (lit ''netease'') (lit ''lrc'') (id_text rs) = Inr ps \<and>
      urlencode ps = Inr q \<longrightarrow>
      lyric_reference e rs lrc ctx s = (Inr (MUSIC_API_BASE_URL e @ lit ''?'' @ q, []), s)"
    by (auto simp: lyric_reference_def effective_lrc_total strip_empty build_lyric_url_signed
        lit_simps split: option.splits)
  have 4: "lrc = [] \<and> truthy_id rs \<and>
      (case search_result_cache s (id_text rs) of None \<Rightarrow> True
       | Some cached \<Rightarrow> strip (se_lrc cached) = []) \<and>
      build_music_params e (lit ''netease'') (lit ''lrc'') (id_text rs) = Inl RuntimeError \<longrightarrow>
      lyric_reference e rs lrc ctx s =
        (Inr ([], fst (fetch_song_lyric e (id_text rs) (report_progress ctx 70 s))),
         snd (fetch_song_lyric e (id_text rs) (report_progress ctx 70 s)))"
    by (auto simp: lyric_reference_def effective_lrc_total strip_empty build_lyric_url_unsigned
        case_prod_beta split: option.splits)
  have 5: "lrc = [] \<and> \<not> truthy_id rs \<longrightarrow> lyric_reference e rs lrc ctx s = (Inr ([], []), s)"
    by (auto simp: lyric_reference_def effective_lrc_total strip_empty build_lyric_url_no_id)
  from 1 2 3 4 5 show ?thesis by blast
qed

lemmas run_defs = resolve_music_url_def resolve_from_source_def lyric_reference_def id_or_def
  truthy_id_def id_text_def normalize_music_url_def resolve_final_url_def http_def offline_def
  head_request_def stream_request_def effective_lrc_def cache_get_def dict_index_def
  build_lyric_url_def build_music_params_def MUSIC_SIGN_REQUIRED_TYPES_def
  report_progress_def initial_state_def cached_state_def example_entry_def example_env_def
  fetch_song_lyric_def utf8_encode_def scalar_value_def utf8_char_def
  strip_defs lit_simps url_defs Let_def

text \<open>
  Claim C2, as stated, fails in two ways.  A lyric text supplied by the caller is not a
  source of the lyric reference: with a URL, no song id, no lyric URL and the lyric text
  \<open>[00:01.00]la\<close>, the result has no lyric at all.  And the first successful source does
  not always win: with a lyric URL argument of one space, which is no lyric URL, and a
  cached search result with a lyric URL under the song id, the cache is not consulted,
  and without a secret the result has no lyric.
\<close>

theorem resolve_music_url_lyric_order_counterexample:
  "fst (resolve_music_url (example_env [] offline) None None (lit ''t'') (lit ''a'')
          (lit ''http://x/y'') [] (lit ''[00:01.00]la'') False initial_state) =
   Inr (Json \<lparr>song_name = lit ''t'', artist = lit ''a'',
              result_final_url = lit ''http://x/y'', lyric_url = [], has_lyric = False,
              next_tool = lit ''self.music.play_url'',
              next_arguments = [(lit ''url'', lit ''http://x/y''), (lit ''title'', lit ''t''),
                                (lit ''artist'', lit ''a'')]\<rparr>) \<and>
   cache_get (lit ''42'') (search_result_cache cached_state) = Inr (Some example_entry) \<and>
   se_lrc example_entry = lit ''http://l/1.lrc'' \<and>
   fst (resolve_music_url (example_env [] offline) (Some (lit ''42'')) None (lit ''t'') (lit ''a'')
          (lit ''http://x/y'') (lit '' '') [] False cached_state) =
   Inr (Json \<lparr>song_name = lit ''t'', artist = lit ''a'',
              result_final_url = lit ''http://x/y'', lyric_url = [], has_lyric = False,
              next_tool = lit ''self.music.play_url'',
              next_arguments = [(lit ''url'', lit ''http://x/y''), (lit ''title'', lit ''t''),
                                (lit ''artist'', lit ''a'')]\<rparr>)"
  by (simp add: run_defs)

text \<open>
  Claim C2, amended.  For every resolve call that returns a result and whose lyric URL
  argument \<open>lrc\<close> is empty or not blank, the lyric reference is found in this order, the
  first success winning: the lyric URL \<open>lrc\<close> supplied by the caller, trimmed; then the
  lyric URL, trimmed, of the cached search result under the resolved song id; then the
  signed lyric-fetch URL built from the song id, which needs a signing secret; then
  the direct lyric-text fetch by song id.  A lyric text supplied by the caller is never
  read.  In the theorem, the first conjunct says that the lyric URL and the lyric text
  of the result are those of the lyric reference, taken at a state with the cache of
  the call; the next five give the lyric reference at any state; the last one says
  that the argument \<open>lyric\<close> does not matter.
\<close>

theorem resolve_music_url_lyric_order:
  assumes a: "resolve_music_url e id_arg song_id name_arg artist_arg url lrc lyric ctx st
                = (Inr (Json r), st')"
  shows
  "(\<exists>s3 t s4. search_result_cache s3 = search_result_cache st \<and>
      lyric_reference e (id_or song_id id_arg) lrc ctx s3 = (Inr (lyric_url r, t), s4) \<and>
      has_lyric r = (lyric_url r \<noteq> [] \<or> t \<noteq> [])) \<and>
   (strip lrc \<noteq> [] \<longrightarrow>
      lyric_reference e (id_or song_id id_arg) lrc ctx s = (Inr (strip lrc, []), s)) \<and>
   (lrc = [] \<and> truthy_id (id_or song_id id_arg) \<and>
    search_result_cache s (id_text (id_or song_id id_arg)) = Some c \<and>
    strip (se_lrc c) \<noteq> [] \<longrightarrow>
      lyric_reference e (id_or song_id id_arg) lrc ctx s = (Inr (strip (se_lrc c), []), s)) \<and>
   (lrc = [] \<and> truthy_id (id_or song_id id_arg) \<and>
    (case search_result_cache s (id_text (id_or song_id id_arg)) of None \<Rightarrow> True
     | Some cached \<Rightarrow> strip (se_lrc cached) = []) \<and>
    build_music_params e (lit ''netease'') (lit ''lrc'') (id_text (id_or song_id id_arg))
      = Inr ps \<and>
    urlencode ps = Inr q \<longrightarrow>
      lyric_reference e (id_or song_id id_arg) lrc ctx s
        = (Inr (MUSIC_API_BASE_URL e @ lit ''?'' @ q, []), s)) \<and>
   (lrc = [] \<and> truthy_id (id_or song_id id_arg) \<and>
    (case search_result_cache s (id_text (id_or song_id id_arg)) of None \<Rightarrow> True
     | Some cached \<Rightarrow> strip (se_lrc cached) = []) \<and>
    build_music_params e (lit ''netease'') (lit ''lrc'') (id_text (id_or song_id id_arg))
      = Inl RuntimeError \<longrightarrow>
      lyric_reference e (id_or song_id id_arg) lrc ctx s =
        (Inr ([], fst (fetch_song_lyric e (id_text (id_or song_id id_arg))
                         (report_progress ctx 70 s))),
         snd (fetch_song_lyric e (id_text (id_or song_id id_arg))
                (report_progress ctx 70 s)))) \<and>
   (lrc = [] \<and> \<not> truthy_id (id_or song_id id_arg) \<longrightarrow>
      lyric_reference e (id_or song_id id_arg) lrc ctx s = (Inr ([], []), s)) \<and>
   resolve_music_url e id_arg song_id name_arg artist_arg url lrc lyric ctx st =
     resolve_music_url e id_arg song_id name_arg artist_arg url lrc [] ctx st"
proof -
  let ?rs = "id_or song_id id_arg"
  from resolve_music_url_result [OF a] obtain su st2 where
    f: "resolve_from_source e ?rs name_arg artist_arg lrc ctx su st2 = (Inr (Json r), st')"
    and c: "search_result_cache st2 = search_result_cache st" by blast
  from resolve_from_source_result [OF f] obtain s3 s4 where
    l: "search_result_cache s3 = search_result_cache st2"
      "lyric_reference e ?rs lrc ctx s3 = (Inr (lyric_url r, []), s4)"
    and h: "has_lyric r = (lyric_url r \<noteq> [])" by blast
  have 1: "\<exists>s3 t s4. search_result_cache s3 = search_result_cache st \<and>
      lyric_reference e ?rs lrc ctx s3 = (Inr (lyric_url r, t), s4) \<and>
      has_lyric r = (lyric_url r \<noteq> [] \<or> t \<noteq> [])"
    using l c h by (intro exI [of _ s3] exI [of _ "[]"] exI [of _ s4]) simp
  from 1 lyric_reference_order [of lrc e ?rs ctx s c ps q] resolve_music_url_ignores_lyric
  show ?thesis by blast
qed

theorem resolve_music_url_lyric_order_witness:
  "fst (resolve_music_url (example_env (lit ''S'') offline) (Some (lit ''42'')) None (lit ''t'')
          (lit ''a'') (lit ''http://x/y'') (lit '' http://l/0.lrc '') [] True initial_state) =
   Inr (Json \<lparr>song_name = lit ''t'', artist = lit ''a'',
              result_final_url = lit ''http://x/y'', lyric_url = lit ''http://l/0.lrc'',
              has_lyric = True, next_tool = lit ''self.music.play_url'',
              next_arguments = [(lit ''url'', lit ''http://x/y''), (lit ''title'', lit ''t''),
                                (lit ''artist'', lit ''a''),
                                (lit ''lyric_url'', lit ''http://l/0.lrc'')]\<rparr>) \<and>
   strip (lit '' http://l/0.lrc '') = lit ''http://l/0.lrc'' \<and>
   lyric_reference (example_env (lit ''S'') offline) (id_or None (Some (lit ''42'')))
     (lit '' http://l/0.lrc '') True cached_state = (Inr (lit ''http://l/0.lrc'', []), cached_state) \<and>
   search_result_cache cached_state (id_text (id_or None (Some (lit ''42'')))) = Some example_entry \<and>
   lyric_reference (example_env (lit ''S'') offline) (id_or None (Some (lit ''42'')))
     [] True cached_state = (Inr (lit ''http://l/1.lrc'', []), cached_state)"
  using resolve_music_url_lyric_order [where e = "example_env (lit ''S'') offline"
      and id_arg = "Some (lit ''42'')" and song_id = None and name_arg = "lit ''t''"
      and artist_arg = "lit ''a''" and url = "lit ''http://x/y''"
      and lrc = "lit '' http://l/0.lrc ''" and lyric = "[]" and ctx = True
      and st = initial_state and s = cached_state and c = example_entry and ps = "[]"
      and q = "[]"
      and r = "\<lparr>song_name = lit ''t'', artist = lit ''a'',
              result_final_url = lit ''http://x/y'', lyric_url = lit ''http://l/0.lrc'',
              has_lyric = True, next_tool = lit ''self.music.play_url'',
              next_arguments = [(lit ''url'', lit ''http://x/y''), (lit ''title'', lit ''t''),
                                (lit ''artist'', lit ''a''),
                                (lit ''lyric_url'', lit ''http://l/0.lrc'')]\<rparr>"
      and st' = "snd (resolve_music_url (example_env (lit ''S'') offline) (Some (lit ''42'')) None
          (lit ''t'') (lit ''a'') (lit ''http://x/y'') (lit '' http://l/0.lrc '') [] True
          initial_state)"]
    resolve_music_url_lyric_order [where e = "example_env (lit ''S'') offline"
      and id_arg = "Some (lit ''42'')" and song_id = None and name_arg = "lit ''t''"
      and artist_arg = "lit ''a''" and url = "lit ''http://x/y''"
      and lrc = "[]" and lyric = "[]" and ctx = True
      and st = cached_state and s = cached_state and c = example_entry and ps = "[]"
      and q = "[]"
      and r = "\<lparr>song_name = lit ''t'', artist = lit ''a'',
              result_final_url = lit ''http://x/y'', lyric_url = lit ''http://l/1.lrc'',
              has_lyric = True, next_tool = lit ''self.music.play_url'',
              next_arguments = [(lit ''url'', lit ''http://x/y''), (lit ''title'', lit ''t''),
                                (lit ''artist'', lit ''a''),
                                (lit ''lyric_url'', lit ''http://l/1.lrc'')]\<rparr>"
      and st' = "snd (resolve_music_url (example_env (lit ''S'') offline) (Some (lit ''42'')) None
          (lit ''t'') (lit ''a'') (lit ''http://x/y'') [] [] True cached_state)"]
  by (simp add: run_defs)

text \<open>
  Claim C3.  For every resolve result, \<open>next_arguments\<close> has the keys \<open>url\<close>, \<open>title\<close> and
  \<open>artist\<close> (with the final URL and the names of the result), has no key besides these,
  \<open>lyric_url\<close> and \<open>lyric\<close>, and never has both \<open>lyric_url\<close> and \<open>lyric\<close>.  When the
  lyric URL of the result is not empty, it is the \<open>lyric_url\<close> argument, no lyric text is
  attached, and no lyric text is fetched: the call sends no plain GET on a
  redirect-following client and does not report the progress value 70.
\<close>

theorem resolve_music_url_one_lyric:
  assumes a: "resolve_music_url e id_arg song_id name_arg artist_arg url lrc lyric ctx st
                = (Inr (Json r), st')"
  shows
  "map_of (next_arguments r) (lit ''url'') = Some (result_final_url r) \<and>
   map_of (next_arguments r) (lit ''title'') = Some (song_name r) \<and>
   map_of (next_arguments r) (lit ''artist'') = Some (artist r) \<and>
   (map_of (next_arguments r) (lit ''lyric_url'') = None \<or>
    map_of (next_arguments r) (lit ''lyric'') = None) \<and>
   set (map fst (next_arguments r))
     \<subseteq> {lit ''url'', lit ''title'', lit ''artist'', lit ''lyric_url'', lit ''lyric''} \<and>
   (lyric_url r \<noteq> [] \<longrightarrow>
      map_of (next_arguments r) (lit ''lyric_url'') = Some (lyric_url r) \<and>
      map_of (next_arguments r) (lit ''lyric'') = None \<and>
      (\<exists>new. sent st' = sent st @ new \<and> list_all (\<lambda>q. \<not> followed_get q) new) \<and>
      70 \<notin> set (drop (length (progress st)) (progress st')))"
proof -
  let ?rs = "id_or song_id id_arg"
  from resolve_music_url_result [OF a] obtain su st2 new pre where
    f: "resolve_from_source e ?rs name_arg artist_arg lrc ctx su st2 = (Inr (Json r), st')"
    and s: "sent st2 = sent st @ new" "list_all (\<lambda>q. \<not> followed_get q) new"
    and p: "progress st2 = progress st @ pre" "70 \<notin> set pre" by blast
  from resolve_from_source_result [OF f] obtain new2 where
    n: "song_name r = name_arg" "artist r = artist_arg"
    and na: "next_arguments r =
       [(lit ''url'', result_final_url r), (lit ''title'', name_arg), (lit ''artist'', artist_arg)] @
       (if lyric_url r \<noteq> [] then [(lit ''lyric_url'', lyric_url r)] else [])"
    and s2: "sent st' = sent st2 @ new2" "list_all (\<lambda>q. \<not> followed_get q) new2"
    and q: "progress st' = progress st2 @
       (if ctx then 55 # (if lyric_url r = [] \<and> truthy_id ?rs then [70] else []) @ [80, 100]
        else [])" by auto
  have sent: "\<exists>new. sent st' = sent st @ new \<and> list_all (\<lambda>q. \<not> followed_get q) new"
    using s s2 by (intro exI [of _ "new @ new2"]) simp
  have prog: "lyric_url r \<noteq> [] \<longrightarrow> 70 \<notin> set (drop (length (progress st)) (progress st'))"
    using p q by auto
  from n na sent prog show ?thesis by (auto simp: lit_simps)
qed

theorem resolve_music_url_one_lyric_witness:
  "fst (resolve_music_url (example_env (lit ''S'') offline) (Some (lit ''42'')) None (lit ''t'')
          (lit ''a'') (lit ''http://x/y'') [] [] True initial_state) =
   Inr (Json \<lparr>song_name = lit ''t'', artist = lit ''a'',
              result_final_url = lit ''http://x/y'',
              lyric_url = lit ''https://api.i-meto.com/meting/api?server=netease&type=lrc&id=42&auth=3E545135C2342'',
              has_lyric = True, next_tool = lit ''self.music.play_url'',
              next_arguments = [(lit ''url'', lit ''http://x/y''), (lit ''title'', lit ''t''),
                                (lit ''artist'', lit ''a''),
                                (lit ''lyric_url'', lit ''https://api.i-meto.com/meting/api?server=netease&type=lrc&id=42&auth=3E545135C2342'')]\<rparr>) \<and>
   sent (snd (resolve_music_url (example_env (lit ''S'') offline) (Some (lit ''42'')) None
          (lit ''t'') (lit ''a'') (lit ''http://x/y'') [] [] True initial_state)) =
     [head_request (lit ''http://x/y''), stream_request (lit ''http://x/y'')]"
  using resolve_music_url_one_lyric [where e = "example_env (lit ''S'') offline"
      and id_arg = "Some (lit ''42'')" and song_id = None and name_arg = "lit ''t''"
      and artist_arg = "lit ''a''" and url = "lit ''http://x/y''"
      and lrc = "[]" and lyric = "[]" and ctx = True and st = initial_state
      and r = "\<lparr>song_name = lit ''t'', artist = lit ''a'',
              result_final_url = lit ''http://x/y'',
              lyric_url = lit ''https://api.i-meto.com/meting/api?server=netease&type=lrc&id=42&auth=3E545135C2342'',
              has_lyric = True, next_tool = lit ''self.music.play_url'',
              next_arguments = [(lit ''url'', lit ''http://x/y''), (lit ''title'', lit ''t''),
                                (lit ''artist'', lit ''a''),
                                (lit ''lyric_url'', lit ''https://api.i-meto.com/meting/api?server=netease&type=lrc&id=42&auth=3E545135C2342'')]\<rparr>"
      and st' = "snd (resolve_music_url (example_env (lit ''S'') offline) (Some (lit ''42'')) None
          (lit ''t'') (lit ''a'') (lit ''http://x/y'') [] [] True initial_state)"]
  by (simp add: run_defs urlencode_def quote_plus_def quote_byte_def always_safe_def
      hex_digit_def)

text \<open>
  Claim C10.  When neither \<open>id\<close> nor \<open>song_id\<close> is given and \<open>url\<close> is not empty but
  consists of whitespace only, the call does not return the missing-information
  message, the normalised source URL is empty, no request is sent (in particular no
  play-URL lookup), and the result carries an empty final URL.
\<close>

theorem resolve_music_url_blank_url:
  assumes u: "url \<noteq> []" and b: "list_all isspace url"
    and i: "\<not> truthy_id id_arg" and s: "\<not> truthy_id song_id"
  shows
  "normalize_music_url e url = Inr [] \<and>
   fst (resolve_music_url e id_arg song_id name_arg artist_arg url lrc lyric ctx st) =
     Inr (Json \<lparr>song_name = name_arg, artist = artist_arg, result_final_url = [],
                lyric_url = strip lrc, has_lyric = (strip lrc \<noteq> []),
                next_tool = lit ''self.music.play_url'',
                next_arguments =
                  [(lit ''url'', []), (lit ''title'', name_arg), (lit ''artist'', artist_arg)] @
                  (if strip lrc \<noteq> [] then [(lit ''lyric_url'', strip lrc)] else [])\<rparr>) \<and>
   fst (resolve_music_url e id_arg song_id name_arg artist_arg url lrc lyric ctx st) \<noteq>
     Inr (Message MSG_MISSING_SONG_INFO) \<and>
   sent (snd (resolve_music_url e id_arg song_id name_arg artist_arg url lrc lyric ctx st))
     = sent st"
proof -
  have n: "normalize_music_url e url = Inr []"
    using b by (simp add: normalize_music_url_def strip_blank)
  have r: "\<not> truthy_id (id_or song_id id_arg)" using i s by (simp add: id_or_def)
  have e: "effective_lrc lrc (id_or song_id id_arg) c = Inr lrc" for c
    using r by (simp add: effective_lrc_total)
  have l: "build_lyric_url e (id_or song_id id_arg) lrc = Inr (strip lrc)"
    using r build_lyric_url_explicit [of lrc e] build_lyric_url_no_id [of lrc "id_or song_id id_arg" e]
    by (cases "strip lrc = []") auto
  have f: "resolve_final_url e [] s = (Inr [], s)" for s
    by (simp add: resolve_final_url_def normalize_empty)
  show ?thesis
    using u n r e l f
    by (simp add: resolve_music_url_def resolve_from_source_def lyric_reference_def Let_def
        lit_simps)
qed

theorem resolve_music_url_blank_url_witness:
  "lit ''  '' \<noteq> [] \<and> list_all isspace (lit ''  '') \<and> \<not> truthy_id None \<and>
   fst (resolve_music_url (example_env [] offline) None None (lit ''t'') (lit ''a'') (lit ''  '')
          [] [] True initial_state) =
   Inr (Json \<lparr>song_name = lit ''t'', artist = lit ''a'', result_final_url = [],
              lyric_url = [], has_lyric = False, next_tool = lit ''self.music.play_url'',
              next_arguments = [(lit ''url'', []), (lit ''title'', lit ''t''),
                                (lit ''artist'', lit ''a'')]\<rparr>) \<and>
   sent (snd (resolve_music_url (example_env [] offline) None None (lit ''t'') (lit ''a'')
          (lit ''  '') [] [] True initial_state)) = []"
  using resolve_music_url_blank_url [where url = "lit ''  ''" and id_arg = None
      and song_id = None and e = "example_env [] offline" and name_arg = "lit ''t''"
      and artist_arg = "lit ''a''" and lrc = "[]" and lyric = "[]" and ctx = True
      and st = initial_state]
  by (simp add: truthy_id_def lit_simps strip_defs initial_state_def)

end
